theory Spec2Isabelle
  imports Complex_Main
begin

section \<open>Python values\<close>

text \<open>
  The handlers of \<^verbatim>\<open>src/backend/app.py\<close> work on decoded JSON bodies, Python floats and
  Python strings. Strings are lists of characters with code points 0..255. A float is an
  extended real: a finite value is the real number the double stands for (the handlers
  only compare floats and never compute with them; the one conversion that rounds, from
  an int, is written out below), and the three special values are kept because
  \<^verbatim>\<open>float("nan")\<close> and \<^verbatim>\<open>float("inf")\<close>
  succeed in Python.
\<close>

datatype pyfloat = Finite real | PosInf | NegInf | NaN

text \<open>Python's \<^verbatim>\<open><\<close> on floats: every comparison with NaN is false.\<close>

fun py_lt :: "pyfloat \<Rightarrow> pyfloat \<Rightarrow> bool" where
  "py_lt NaN _ = False"
| "py_lt _ NaN = False"
| "py_lt (Finite a) (Finite b) = (a < b)"
| "py_lt (Finite a) PosInf = True"
| "py_lt (Finite a) NegInf = False"
| "py_lt PosInf _ = False"
| "py_lt NegInf (Finite b) = True"
| "py_lt NegInf PosInf = True"
| "py_lt NegInf NegInf = False"

text \<open>
  The builtins \<^verbatim>\<open>min(a, b)\<close> and \<^verbatim>\<open>max(a, b)\<close> keep the first argument unless the
  second is strictly smaller (strictly greater).
\<close>

definition py_min :: "pyfloat \<Rightarrow> pyfloat \<Rightarrow> pyfloat" where
  "py_min a b = (if py_lt b a then b else a)"

definition py_max :: "pyfloat \<Rightarrow> pyfloat \<Rightarrow> pyfloat" where
  "py_max a b = (if py_lt a b then b else a)"

text \<open>
  A decoded JSON value. An object is the dict that \<^verbatim>\<open>json.loads\<close> built, written as an
  association list that is read with \<^const>\<open>map_of\<close>.
\<close>

datatype json =
    JNull
  | JBool bool
  | JInt int
  | JFloat pyfloat
  | JStr string
  | JArr "json list"
  | JObj "(string \<times> json) list"

datatype exn =
    AttributeError
  | TypeError
  | ValueError
  | OverflowError
  | JSONDecodeError
  | OSError
  | DBAPIError

text \<open>Truthiness, as \<^verbatim>\<open>x or default\<close> and \<^verbatim>\<open>if not x\<close> test it.\<close>

fun truthy :: "json \<Rightarrow> bool" where
  "truthy JNull = False"
| "truthy (JBool b) = b"
| "truthy (JInt n) = (n \<noteq> 0)"
| "truthy (JFloat f) = (f \<noteq> Finite 0)"
| "truthy (JStr s) = (s \<noteq> [])"
| "truthy (JArr xs) = (xs \<noteq> [])"
| "truthy (JObj kvs) = (kvs \<noteq> [])"

definition py_or :: "json \<Rightarrow> json \<Rightarrow> json" where
  "py_or v d = (if truthy v then v else d)"

text \<open>\<^verbatim>\<open>payload.get(key)\<close>: only a dict has the method.\<close>

fun py_get :: "json \<Rightarrow> string \<Rightarrow> exn + json" where
  "py_get (JObj kvs) k = Inr (case map_of kvs k of None \<Rightarrow> JNull | Some v \<Rightarrow> v)"
| "py_get _ k = Inl AttributeError"

text \<open>\<^verbatim>\<open>key in payload\<close> for a payload that \<^verbatim>\<open>.get\<close> was already called on.\<close>

fun py_has_key :: "json \<Rightarrow> string \<Rightarrow> bool" where
  "py_has_key (JObj kvs) k = (map_of kvs k \<noteq> None)"
| "py_has_key _ k = False"

subsection \<open>Strings\<close>

text \<open>\<^verbatim>\<open>str.isspace\<close> on the code points 0..255.\<close>

definition py_isspace :: "char \<Rightarrow> bool" where
  "py_isspace c =
     (let n = (of_char c :: nat)
      in (9 \<le> n \<and> n \<le> 13) \<or> (28 \<le> n \<and> n \<le> 32) \<or> n = 133 \<or> n = 160)"

definition strip :: "string \<Rightarrow> string" where
  "strip s = rev (dropWhile py_isspace (rev (dropWhile py_isspace s)))"

text \<open>\<^verbatim>\<open>str.lower\<close> on the code points 0..255: A-Z and the Latin-1 capitals.\<close>

definition py_lower_char :: "char \<Rightarrow> char" where
  "py_lower_char c =
     (let n = (of_char c :: nat)
      in if (65 \<le> n \<and> n \<le> 90) \<or> (192 \<le> n \<and> n \<le> 222 \<and> n \<noteq> 215)
         then char_of (n + 32) else c)"

definition lower :: "string \<Rightarrow> string" where
  "lower s = map py_lower_char s"

definition endswith :: "string \<Rightarrow> string \<Rightarrow> bool" where
  "endswith s suf = (length suf \<le> length s \<and> drop (length s - length suf) s = suf)"

text \<open>
  \<^verbatim>\<open>(payload.get(key) or "").strip()\<close>: a falsy value becomes the empty string; a truthy
  value that is not a string has no \<^verbatim>\<open>strip\<close>.
\<close>

definition or_empty_strip :: "json \<Rightarrow> exn + string" where
  "or_empty_strip v =
     (case py_or v (JStr []) of JStr s \<Rightarrow> Inr (strip s) | _ \<Rightarrow> Inl AttributeError)"

definition get_stripped :: "json \<Rightarrow> string \<Rightarrow> exn + string" where
  "get_stripped payload k =
     (case py_get payload k of Inl e \<Rightarrow> Inl e | Inr v \<Rightarrow> or_empty_strip v)"

text \<open>\<^verbatim>\<open>(payload.get(key) or "").strip() or None\<close>.\<close>

definition none_if_empty :: "string \<Rightarrow> string option" where
  "none_if_empty s = (if s = [] then None else Some s)"

subsection \<open>Conversion to float\<close>

text \<open>
  \<^verbatim>\<open>float(n)\<close> for an int rounds to the nearest binary64 value, ties to the even
  significand: the magnitude keeps its 53 leading bits. \<open>bit_length\<close> is
  \<^verbatim>\<open>int.bit_length\<close>.
\<close>

fun bit_length :: "nat \<Rightarrow> nat" where
  "bit_length n = (if n = 0 then 0 else Suc (bit_length (n div 2)))"

declare bit_length.simps [simp del]

definition round_binary64 :: "int \<Rightarrow> int" where
  "round_binary64 n =
     (let m = nat \<bar>n\<bar>;
          e = bit_length m - 53;
          q = m div 2 ^ e;
          r = m mod 2 ^ e;
          q' = (if 2 ^ e < 2 * r \<or> (2 * r = 2 ^ e \<and> odd q) then q + 1 else q)
      in sgn n * int (q' * 2 ^ e))"

text \<open>
  \<^verbatim>\<open>float(x)\<close>. Parsing a string is the interpreter's work and is a parameter
  \<open>float_of_str\<close> (\<^const>\<open>None\<close> where \<^verbatim>\<open>float\<close> raises ValueError). An int is
  rounded, and raises OverflowError when the rounded value is beyond the largest double.
\<close>

fun py_float :: "(string \<Rightarrow> pyfloat option) \<Rightarrow> json \<Rightarrow> exn + pyfloat" where
  "py_float float_of_str JNull = Inl TypeError"
| "py_float float_of_str (JBool b) = Inr (Finite (if b then 1 else 0))"
| "py_float float_of_str (JInt n) =
     (if \<bar>round_binary64 n\<bar> < 2 ^ 1024 then Inr (Finite (of_int (round_binary64 n)))
      else Inl OverflowError)"
| "py_float float_of_str (JFloat f) = Inr f"
| "py_float float_of_str (JStr s) =
     (case float_of_str s of None \<Rightarrow> Inl ValueError | Some f \<Rightarrow> Inr f)"
| "py_float float_of_str (JArr xs) = Inl TypeError"
| "py_float float_of_str (JObj kvs) = Inl TypeError"

section \<open>Persistence schema\<close>

text \<open>
  One record per model class, one list per table. Field names carry the table's prefix.
  A \<^verbatim>\<open>DateTime\<close> is a number. The EPUB tables are not part of the model: none of the
  handlers below reads or writes them.
\<close>

record invite_code =
  ic_code :: string
  ic_used_at :: "nat option"
  ic_used_by_email :: "string option"

definition is_used :: "invite_code \<Rightarrow> bool" where
  "is_used c = (ic_used_at c \<noteq> None)"

record user =
  u_id :: nat
  u_name :: string
  u_email :: string
  u_password_hash :: string
  u_is_admin :: bool
  u_created_at :: nat
  u_reader_theme :: string
  u_reader_font_scale :: pyfloat
  u_reader_line_height :: pyfloat

record listening_progress =
  lp_id :: nat
  lp_user_id :: nat
  lp_chapter_id :: string
  lp_position_seconds :: pyfloat
  lp_updated_at :: nat

record bookmark =
  bm_id :: nat
  bm_user_id :: nat
  bm_chapter_id :: string
  bm_position_seconds :: pyfloat
  bm_label :: "string option"
  bm_created_at :: nat

record note_row =
  nt_id :: nat
  nt_user_id :: nat
  nt_chapter_id :: string
  nt_position_seconds :: pyfloat
  nt_note_type :: "string option"
  nt_severity :: "string option"
  nt_spoiler :: bool
  nt_text :: string
  nt_created_at :: nat
  nt_updated_at :: nat

record feedback_row =
  fb_id :: nat
  fb_user_id :: nat
  fb_scope :: string
  fb_chapter_id :: "string option"
  fb_status :: string
  fb_draft_version :: "string option"
  fb_text :: string
  fb_created_at :: nat

record db =
  invite_codes :: "invite_code list"
  users :: "user list"
  listening_progress :: "listening_progress list"
  bookmarks :: "bookmark list"
  notes_table :: "note_row list"
  feedback :: "feedback_row list"

text \<open>
  PostgreSQL takes no text value that holds the NUL character, neither as the parameter
  of a query nor as a value to insert: the statement raises a DataError. The handlers
  below test this where they send text to the database.
\<close>

definition pg_text_ok :: "string \<Rightarrow> bool" where
  "pg_text_ok s = list_all (\<lambda>c. c \<noteq> CHR 0x00) s"

definition pg_opt_ok :: "string option \<Rightarrow> bool" where
  "pg_opt_ok v = (case v of None \<Rightarrow> True | Some s \<Rightarrow> pg_text_ok s)"

text \<open>
  What the database enforces at commit, from the column declarations: primary keys, the
  unique email, \<^verbatim>\<open>uq_progress_user_chapter\<close>, and the \<^verbatim>\<open>String(n)\<close> lengths of the
  columns the handlers below write.
\<close>

definition constraints_ok :: "db \<Rightarrow> bool" where
  "constraints_ok d =
     (distinct (map ic_code (invite_codes d)) \<and>
      distinct (map u_id (users d)) \<and>
      distinct (map u_email (users d)) \<and>
      distinct (map lp_id (listening_progress d)) \<and>
      distinct (map (\<lambda>r. (lp_user_id r, lp_chapter_id r)) (listening_progress d)) \<and>
      distinct (map bm_id (bookmarks d)) \<and>
      distinct (map nt_id (notes_table d)) \<and>
      distinct (map fb_id (feedback d)) \<and>
      list_all (\<lambda>c. length (ic_code c) \<le> 64) (invite_codes d) \<and>
      list_all (\<lambda>u. length (u_name u) \<le> 120 \<and> length (u_email u) \<le> 255 \<and>
                     length (u_password_hash u) \<le> 255 \<and> length (u_reader_theme u) \<le> 12)
        (users d) \<and>
      list_all (\<lambda>r. length (lp_chapter_id r) \<le> 64) (listening_progress d) \<and>
      list_all (\<lambda>r. length (bm_chapter_id r) \<le> 64 \<and>
                     (case bm_label r of None \<Rightarrow> True | Some l \<Rightarrow> length l \<le> 200))
        (bookmarks d) \<and>
      list_all (\<lambda>r. length (nt_chapter_id r) \<le> 64 \<and>
                     (case nt_note_type r of None \<Rightarrow> True | Some t \<Rightarrow> length t \<le> 30) \<and>
                     (case nt_severity r of None \<Rightarrow> True | Some t \<Rightarrow> length t \<le> 10))
        (notes_table d) \<and>
      list_all (\<lambda>r. length (fb_status r) \<le> 10) (feedback d))"

text \<open>An autoincrement primary key: larger than every key of the table.\<close>

definition next_id :: "nat list \<Rightarrow> nat" where
  "next_id ids = Suc (fold max ids 0)"

section \<open>Requests, sessions and replies\<close>

text \<open>
  A request runs in one SQLAlchemy session. \<open>working\<close> holds the rows as the session sees
  them (added, changed and deleted objects included), \<open>committed\<close> what the database
  holds. \<^verbatim>\<open>db.session.commit()\<close> writes the whole of \<open>working\<close> in one transaction or
  raises (an IntegrityError or a DataError, both a DBAPIError) and writes nothing; the
  session is discarded at the end of the request, so
  changes that were never committed are lost. \<open>trace\<close> lists the database operations of
  the handler in order. Loading \<^verbatim>\<open>current_user\<close> from the session cookie is done before
  the handler and is not in the trace.
\<close>

datatype event = Query string | Get string | Add string | Delete string | Commit

record session =
  committed :: db
  working :: db
  trace :: "event list"

definition begin_session :: "db \<Rightarrow> session" where
  "begin_session d = \<lparr>committed = d, working = d, trace = []\<rparr>"

definition emit :: "event \<Rightarrow> session \<Rightarrow> session" where
  "emit e s = s\<lparr>trace := trace s @ [e]\<rparr>"

definition commit :: "session \<Rightarrow> exn + session" where
  "commit s =
     (if constraints_ok (working s)
      then Inr (emit Commit (s\<lparr>committed := working s\<rparr>))
      else Inl DBAPIError)"

text \<open>
  The body of a reply, by shape: \<open>Error m\<close> is \<^verbatim>\<open>{"error": m}\<close>, \<open>Ok\<close> is
  \<^verbatim>\<open>{"ok": true}\<close>, \<open>Page\<close> is the framework's own page for an aborted request, the
  others carry the values that \<^verbatim>\<open>jsonify\<close> renders. \<open>Uncaught e\<close> is an exception that
  leaves the view function; Flask answers it with status 500.
\<close>

datatype body =
    Error string
  | Ok
  | OkId nat
  | Page
  | AuthFalse
  | AuthTrue nat string string bool
  | Settings string pyfloat pyfloat
  | Document json
  | BuildInfo string string json
  | InviteItems "invite_code list"
  | FeedbackItems "feedback_row list"
  | ProgressItems "(user \<times> nat \<times> listening_progress option) list"
  | Audio "(string \<times> string) list" "string list"

datatype reply = Reply nat body | Uncaught exn

fun status_of :: "reply \<Rightarrow> nat" where
  "status_of (Reply n b) = n"
| "status_of (Uncaught e) = 500"

text \<open>The request body as \<^verbatim>\<open>request.get_json\<close> finds it.\<close>

datatype payload = Unparsable | Parsed json

text \<open>\<^verbatim>\<open>get_json(force=True)\<close> aborts with 400 on a body that is not JSON.\<close>

definition get_json_force :: "payload \<Rightarrow> reply + json" where
  "get_json_force p = (case p of Unparsable \<Rightarrow> Inl (Reply 400 Page) | Parsed j \<Rightarrow> Inr j)"

text \<open>\<^verbatim>\<open>get_json(silent=True)\<close> returns None instead.\<close>

definition get_json_silent :: "payload \<Rightarrow> json" where
  "get_json_silent p = (case p of Unparsable \<Rightarrow> JNull | Parsed j \<Rightarrow> j)"

text \<open>
  \<^verbatim>\<open>load_user\<close>: the user id of the session cookie, looked up by primary key; a request
  without a cookie, or with the id of no row, is anonymous.
\<close>

definition load_user :: "db \<Rightarrow> nat option \<Rightarrow> user option" where
  "load_user d cookie =
     (case cookie of None \<Rightarrow> None | Some i \<Rightarrow> find (\<lambda>u. u_id u = i) (users d))"

text \<open>\<^verbatim>\<open>@login_required\<close> with no login view configured: abort with 401.\<close>

definition login_required ::
  "user option \<Rightarrow> (user \<Rightarrow> session \<Rightarrow> reply \<times> session) \<Rightarrow> session \<Rightarrow> reply \<times> session" where
  "login_required cu h s = (case cu of None \<Rightarrow> (Reply 401 Page, s) | Some u \<Rightarrow> h u s)"

section \<open>Identity check\<close>

definition me :: "user option \<Rightarrow> reply" where
  "me cu =
     (case cu of
        None \<Rightarrow> Reply 200 AuthFalse
      | Some u \<Rightarrow> Reply 200 (AuthTrue (u_id u) (u_name u) (u_email u) (u_is_admin u)))"

text \<open>The route as Flask runs it: resolve the cookie, then call the view.\<close>

definition get_auth_me :: "db \<Rightarrow> nat option \<Rightarrow> reply" where
  "get_auth_me d cookie = me (load_user d cookie)"

section \<open>Reader settings\<close>

definition get_reader_settings :: "user \<Rightarrow> reply" where
  "get_reader_settings u =
     Reply 200 (Settings
       (if u_reader_theme u = [] then ''paper'' else u_reader_theme u)
       (if u_reader_font_scale u = Finite 0 then Finite 1 else u_reader_font_scale u)
       (if u_reader_line_height u = Finite 0 then Finite 1.65 else u_reader_line_height u))"

text \<open>Writing the changed attributes of the row with this primary key.\<close>

definition store_user :: "user \<Rightarrow> db \<Rightarrow> db" where
  "store_user u d = d\<lparr>users := map (\<lambda>r. if u_id r = u_id u then u else r) (users d)\<rparr>"

text \<open>\<^verbatim>\<open>if theme in ("paper", "white", "night"): current_user.reader_theme = theme\<close>\<close>

definition apply_theme :: "json \<Rightarrow> user \<Rightarrow> user" where
  "apply_theme theme u =
     (case theme of
        JStr t \<Rightarrow> (if t = ''paper'' \<or> t = ''white'' \<or> t = ''night''
                   then u\<lparr>u_reader_theme := t\<rparr> else u)
      | _ \<Rightarrow> u)"

text \<open>The two \<^verbatim>\<open>try: ... except Exception: pass\<close> blocks.\<close>

definition apply_font_scale :: "(string \<Rightarrow> pyfloat option) \<Rightarrow> json \<Rightarrow> user \<Rightarrow> user" where
  "apply_font_scale float_of_str raw u =
     (case py_float float_of_str raw of
        Inl e \<Rightarrow> u
      | Inr font_scale \<Rightarrow>
          u\<lparr>u_reader_font_scale := py_max (Finite 0.75) (py_min (Finite 1.6) font_scale)\<rparr>)"

definition apply_line_height :: "(string \<Rightarrow> pyfloat option) \<Rightarrow> json \<Rightarrow> user \<Rightarrow> user" where
  "apply_line_height float_of_str raw u =
     (case py_float float_of_str raw of
        Inl e \<Rightarrow> u
      | Inr line_height \<Rightarrow>
          u\<lparr>u_reader_line_height := py_max (Finite 1.2) (py_min (Finite 2.4) line_height)\<rparr>)"

definition put_reader_settings ::
  "(string \<Rightarrow> pyfloat option) \<Rightarrow> payload \<Rightarrow> user \<Rightarrow> session \<Rightarrow> reply \<times> session" where
  "put_reader_settings float_of_str p u s =
     (let payload = py_or (get_json_silent p) (JObj []) in
      case py_get payload ''theme'' of Inl e \<Rightarrow> (Uncaught e, s) | Inr theme \<Rightarrow>
      (let u1 = apply_theme theme u in
       case py_get payload ''fontScale'' of Inl e \<Rightarrow> (Uncaught e, s) | Inr font_scale_raw \<Rightarrow>
       (let u2 = apply_font_scale float_of_str font_scale_raw u1 in
        case py_get payload ''lineHeight'' of Inl e \<Rightarrow> (Uncaught e, s) | Inr line_height_raw \<Rightarrow>
        (let u3 = apply_line_height float_of_str line_height_raw u2;
             s1 = s\<lparr>working := store_user u3 (working s)\<rparr>
         in case commit s1 of
              Inl e \<Rightarrow> (Uncaught e, s1)
            | Inr s2 \<Rightarrow> (get_reader_settings u3, s2)))))"

text \<open>The route \<^verbatim>\<open>PUT /api/me/reader-settings\<close> on the database \<open>d\<close>.\<close>

definition put_reader_settings_route ::
  "(string \<Rightarrow> pyfloat option) \<Rightarrow> db \<Rightarrow> nat option \<Rightarrow> payload \<Rightarrow> reply \<times> session" where
  "put_reader_settings_route float_of_str d cookie p =
     login_required (load_user d cookie) (put_reader_settings float_of_str p) (begin_session d)"

section \<open>Signup\<close>

text \<open>
  \<open>now\<close> is the clock (\<^verbatim>\<open>datetime.utcnow()\<close>, one reading per request) and \<open>hash_pw\<close> is
  \<^verbatim>\<open>generate_password_hash\<close>, which needs a string. The third component of the result is
  the user id that \<^verbatim>\<open>login_user\<close> puts into the session cookie. A lookup whose text
  parameter holds NUL raises at the database, and so does the commit that inserts a
  name or hash holding NUL.
\<close>

definition new_user :: "nat \<Rightarrow> string \<Rightarrow> string \<Rightarrow> string \<Rightarrow> nat \<Rightarrow> user" where
  "new_user i nm em ph now =
     \<lparr>u_id = i, u_name = nm, u_email = em, u_password_hash = ph, u_is_admin = False,
      u_created_at = now, u_reader_theme = ''paper'', u_reader_font_scale = Finite 1,
      u_reader_line_height = Finite 1.65\<rparr>"

definition consume_invite :: "string \<Rightarrow> nat \<Rightarrow> string \<Rightarrow> db \<Rightarrow> db" where
  "consume_invite c now em d =
     d\<lparr>invite_codes :=
          map (\<lambda>r. if ic_code r = c then r\<lparr>ic_used_at := Some now, ic_used_by_email := Some em\<rparr>
                   else r)
            (invite_codes d)\<rparr>"

definition add_user :: "user \<Rightarrow> db \<Rightarrow> db" where
  "add_user u d = d\<lparr>users := users d @ [u]\<rparr>"

definition signup ::
  "nat \<Rightarrow> (string \<Rightarrow> string) \<Rightarrow> payload \<Rightarrow> session \<Rightarrow> reply \<times> session \<times> nat option" where
  "signup now hash_pw p s =
     (case get_json_force p of Inl r \<Rightarrow> (r, s, None) | Inr payload \<Rightarrow>
      case get_stripped payload ''name'' of Inl e \<Rightarrow> (Uncaught e, s, None) | Inr name \<Rightarrow>
      case get_stripped payload ''email'' of Inl e \<Rightarrow> (Uncaught e, s, None) | Inr email0 \<Rightarrow>
      case py_get payload ''password'' of Inl e \<Rightarrow> (Uncaught e, s, None) | Inr pw0 \<Rightarrow>
      case get_stripped payload ''inviteCode'' of Inl e \<Rightarrow> (Uncaught e, s, None) | Inr invite_code \<Rightarrow>
      (let email = lower email0; password = py_or pw0 (JStr []) in
       if \<not> (name \<noteq> [] \<and> email \<noteq> [] \<and> truthy password \<and> invite_code \<noteq> [])
       then (Reply 400 (Error ''Missing required fields''), s, None)
       else
        (let s1 = emit (Get ''invite_codes'') s in
         if \<not> pg_text_ok invite_code then (Uncaught DBAPIError, s1, None)
         else
         case find (\<lambda>c. ic_code c = invite_code) (invite_codes (working s1)) of
           None \<Rightarrow> (Reply 400 (Error ''Invalid invite code''), s1, None)
         | Some code \<Rightarrow>
            if is_used code then (Reply 400 (Error ''Invite code already used''), s1, None)
            else
             (let s2 = emit (Query ''users'') s1 in
              if \<not> pg_text_ok email then (Uncaught DBAPIError, s2, None)
              else if find (\<lambda>u. u_email u = email) (users (working s2)) \<noteq> None
              then (Reply 400 (Error ''Email already registered''), s2, None)
              else
               (case password of
                  JStr pw \<Rightarrow>
                    (let user = new_user (next_id (map u_id (users (working s2)))) name email
                                  (hash_pw pw) now;
                         s3 = emit (Add ''users'') (s2\<lparr>working := add_user user (working s2)\<rparr>);
                         s4 = emit (Add ''invite_codes'')
                                (s3\<lparr>working := consume_invite (ic_code code) now email (working s3)\<rparr>)
                     in if \<not> (pg_text_ok name \<and> pg_text_ok (hash_pw pw))
                        then (Uncaught DBAPIError, s4, None)
                        else
                        case commit s4 of
                          Inl e \<Rightarrow> (Uncaught e, s4, None)
                        | Inr s5 \<Rightarrow> (Reply 200 Ok, s5, Some (u_id user)))
                | _ \<Rightarrow> (Uncaught AttributeError, s2, None))))))"

definition signup_route ::
  "nat \<Rightarrow> (string \<Rightarrow> string) \<Rightarrow> db \<Rightarrow> payload \<Rightarrow> reply \<times> session \<times> nat option" where
  "signup_route now hash_pw d p = signup now hash_pw p (begin_session d)"

section \<open>Progress, bookmarks and notes\<close>

text \<open>\<^verbatim>\<open>float(payload.get("positionSeconds") or 0.0)\<close>\<close>

definition get_position :: "(string \<Rightarrow> pyfloat option) \<Rightarrow> json \<Rightarrow> exn + pyfloat" where
  "get_position float_of_str payload =
     (case py_get payload ''positionSeconds'' of
        Inl e \<Rightarrow> Inl e
      | Inr v \<Rightarrow> py_float float_of_str (py_or v (JFloat (Finite 0))))"

definition set_progress ::
  "nat \<Rightarrow> (string \<Rightarrow> pyfloat option) \<Rightarrow> payload \<Rightarrow> user \<Rightarrow> session \<Rightarrow> reply \<times> session" where
  "set_progress now float_of_str p u s =
     (case get_json_force p of Inl r \<Rightarrow> (r, s) | Inr payload \<Rightarrow>
      case get_stripped payload ''chapterId'' of Inl e \<Rightarrow> (Uncaught e, s) | Inr chapter_id \<Rightarrow>
      case get_position float_of_str payload of Inl e \<Rightarrow> (Uncaught e, s) | Inr position_seconds \<Rightarrow>
      if chapter_id = [] then (Reply 400 (Error ''Missing chapterId''), s)
      else
       (let s1 = emit (Query ''listening_progress'') s in
        if \<not> pg_text_ok chapter_id then (Uncaught DBAPIError, s1)
        else
        let rows = listening_progress (working s1);
            s2 =
              (case find (\<lambda>r. lp_user_id r = u_id u \<and> lp_chapter_id r = chapter_id) rows of
                 None \<Rightarrow>
                   emit (Add ''listening_progress'')
                     (s1\<lparr>working := (working s1)\<lparr>listening_progress :=
                        rows @ [\<lparr>lp_id = next_id (map lp_id rows), lp_user_id = u_id u,
                                 lp_chapter_id = chapter_id,
                                 lp_position_seconds = position_seconds,
                                 lp_updated_at = now\<rparr>]\<rparr>\<rparr>)
               | Some row \<Rightarrow>
                   s1\<lparr>working := (working s1)\<lparr>listening_progress :=
                        map (\<lambda>r. if lp_id r = lp_id row
                                 then r\<lparr>lp_position_seconds := position_seconds,
                                        lp_updated_at := now\<rparr>
                                 else r) rows\<rparr>\<rparr>)
        in case commit s2 of
             Inl e \<Rightarrow> (Uncaught e, s2)
           | Inr s3 \<Rightarrow> (Reply 200 Ok, s3)))"

definition set_progress_route ::
  "nat \<Rightarrow> (string \<Rightarrow> pyfloat option) \<Rightarrow> db \<Rightarrow> nat option \<Rightarrow> payload \<Rightarrow> reply \<times> session" where
  "set_progress_route now float_of_str d cookie p =
     login_required (load_user d cookie) (set_progress now float_of_str p) (begin_session d)"

definition add_bookmark ::
  "nat \<Rightarrow> (string \<Rightarrow> pyfloat option) \<Rightarrow> payload \<Rightarrow> user \<Rightarrow> session \<Rightarrow> reply \<times> session" where
  "add_bookmark now float_of_str p u s =
     (case get_json_force p of Inl r \<Rightarrow> (r, s) | Inr payload \<Rightarrow>
      case get_stripped payload ''chapterId'' of Inl e \<Rightarrow> (Uncaught e, s) | Inr chapter_id \<Rightarrow>
      case get_position float_of_str payload of Inl e \<Rightarrow> (Uncaught e, s) | Inr position_seconds \<Rightarrow>
      case get_stripped payload ''label'' of Inl e \<Rightarrow> (Uncaught e, s) | Inr label0 \<Rightarrow>
      if chapter_id = [] then (Reply 400 (Error ''Missing chapterId''), s)
      else
       (let rows = bookmarks (working s);
            row = \<lparr>bm_id = next_id (map bm_id rows), bm_user_id = u_id u,
                   bm_chapter_id = chapter_id, bm_position_seconds = position_seconds,
                   bm_label = none_if_empty label0, bm_created_at = now\<rparr>;
            s1 = emit (Add ''bookmarks'') (s\<lparr>working := (working s)\<lparr>bookmarks := rows @ [row]\<rparr>\<rparr>)
        in if \<not> (pg_text_ok chapter_id \<and> pg_opt_ok (none_if_empty label0))
           then (Uncaught DBAPIError, s1)
           else
           case commit s1 of
             Inl e \<Rightarrow> (Uncaught e, s1)
           | Inr s2 \<Rightarrow> (Reply 200 (OkId (bm_id row)), s2)))"

definition delete_bookmark :: "nat \<Rightarrow> user \<Rightarrow> session \<Rightarrow> reply \<times> session" where
  "delete_bookmark bookmark_id u s =
     (let s1 = emit (Query ''bookmarks'') s in
      case find (\<lambda>r. bm_user_id r = u_id u \<and> bm_id r = bookmark_id) (bookmarks (working s1)) of
        None \<Rightarrow> (Reply 404 (Error ''Not found''), s1)
      | Some row \<Rightarrow>
         (let s2 = emit (Delete ''bookmarks'')
                     (s1\<lparr>working := (working s1)\<lparr>bookmarks :=
                        filter (\<lambda>r. bm_id r \<noteq> bm_id row) (bookmarks (working s1))\<rparr>\<rparr>)
          in case commit s2 of
               Inl e \<Rightarrow> (Uncaught e, s2)
             | Inr s3 \<Rightarrow> (Reply 200 Ok, s3)))"

definition delete_bookmark_route :: "db \<Rightarrow> nat option \<Rightarrow> nat \<Rightarrow> reply \<times> session" where
  "delete_bookmark_route d cookie bookmark_id =
     login_required (load_user d cookie) (delete_bookmark bookmark_id) (begin_session d)"

definition add_note ::
  "nat \<Rightarrow> (string \<Rightarrow> pyfloat option) \<Rightarrow> payload \<Rightarrow> user \<Rightarrow> session \<Rightarrow> reply \<times> session" where
  "add_note now float_of_str p u s =
     (case get_json_force p of Inl r \<Rightarrow> (r, s) | Inr payload \<Rightarrow>
      case get_stripped payload ''chapterId'' of Inl e \<Rightarrow> (Uncaught e, s) | Inr chapter_id \<Rightarrow>
      case get_position float_of_str payload of Inl e \<Rightarrow> (Uncaught e, s) | Inr position_seconds \<Rightarrow>
      case get_stripped payload ''text'' of Inl e \<Rightarrow> (Uncaught e, s) | Inr text \<Rightarrow>
      case get_stripped payload ''type'' of Inl e \<Rightarrow> (Uncaught e, s) | Inr note_type \<Rightarrow>
      case get_stripped payload ''severity'' of Inl e \<Rightarrow> (Uncaught e, s) | Inr severity \<Rightarrow>
      case py_get payload ''spoiler'' of Inl e \<Rightarrow> (Uncaught e, s) | Inr spoiler \<Rightarrow>
      if \<not> (chapter_id \<noteq> [] \<and> text \<noteq> [])
      then (Reply 400 (Error ''Missing chapterId or text''), s)
      else
       (let rows = notes_table (working s);
            row = \<lparr>nt_id = next_id (map nt_id rows), nt_user_id = u_id u,
                   nt_chapter_id = chapter_id, nt_position_seconds = position_seconds,
                   nt_note_type = none_if_empty note_type,
                   nt_severity = none_if_empty severity, nt_spoiler = truthy spoiler,
                   nt_text = text, nt_created_at = now, nt_updated_at = now\<rparr>;
            s1 = emit (Add ''notes'') (s\<lparr>working := (working s)\<lparr>notes_table := rows @ [row]\<rparr>\<rparr>)
        in if \<not> (pg_text_ok chapter_id \<and> pg_text_ok text \<and> pg_opt_ok (none_if_empty note_type) \<and>
                  pg_opt_ok (none_if_empty severity))
           then (Uncaught DBAPIError, s1)
           else
           case commit s1 of
             Inl e \<Rightarrow> (Uncaught e, s1)
           | Inr s2 \<Rightarrow> (Reply 200 (OkId (nt_id row)), s2)))"

definition delete_note :: "nat \<Rightarrow> user \<Rightarrow> session \<Rightarrow> reply \<times> session" where
  "delete_note note_id u s =
     (let s1 = emit (Query ''notes'') s in
      case find (\<lambda>r. nt_user_id r = u_id u \<and> nt_id r = note_id) (notes_table (working s1)) of
        None \<Rightarrow> (Reply 404 (Error ''Not found''), s1)
      | Some row \<Rightarrow>
         (let s2 = emit (Delete ''notes'')
                     (s1\<lparr>working := (working s1)\<lparr>notes_table :=
                        filter (\<lambda>r. nt_id r \<noteq> nt_id row) (notes_table (working s1))\<rparr>\<rparr>)
          in case commit s2 of
               Inl e \<Rightarrow> (Uncaught e, s2)
             | Inr s3 \<Rightarrow> (Reply 200 Ok, s3)))"

definition delete_note_route :: "db \<Rightarrow> nat option \<Rightarrow> nat \<Rightarrow> reply \<times> session" where
  "delete_note_route d cookie note_id =
     login_required (load_user d cookie) (delete_note note_id) (begin_session d)"

section \<open>Persisted documents\<close>

text \<open>
  What a handler finds when it reads one of the JSON files: no file, a file whose text
  \<^verbatim>\<open>read_text\<close> or \<^verbatim>\<open>json.loads\<close> rejects, or the decoded value.
\<close>

datatype file_doc = NoFile | BadText | Doc json

text \<open>
  \<^verbatim>\<open>build_info\<close>. \<open>today\<close> is \<^verbatim>\<open>datetime.utcnow().date().isoformat()\<close> and \<open>str_of\<close> is
  Python's \<^verbatim>\<open>str\<close> on a decoded value. Everything that raises is inside the
  \<^verbatim>\<open>try\<close> block, whose handler falls through to the fallback.
\<close>

definition build_info_fallback :: "string \<Rightarrow> body" where
  "build_info_fallback today = BuildInfo ''v0'' today (JArr [])"

definition build_info :: "string \<Rightarrow> (json \<Rightarrow> string) \<Rightarrow> file_doc \<Rightarrow> user \<Rightarrow> reply" where
  "build_info today str_of f u =
     (case f of
        Doc (JObj kvs) \<Rightarrow>
          (let data = JObj kvs in
           case py_get data ''draftVersion'' of Inl e \<Rightarrow> Reply 200 (build_info_fallback today)
           | Inr dv \<Rightarrow>
           case py_get data ''updatedAt'' of Inl e \<Rightarrow> Reply 200 (build_info_fallback today)
           | Inr ua \<Rightarrow>
           case py_get data ''whatChanged'' of Inl e \<Rightarrow> Reply 200 (build_info_fallback today)
           | Inr wc \<Rightarrow>
             (let what_changed = py_or wc (JArr []) in
              Reply 200 (BuildInfo
                (str_of (py_or dv (JStr ''v0'')))
                (str_of (py_or ua (JStr today)))
                (case what_changed of JArr xs \<Rightarrow> JArr xs | _ \<Rightarrow> JArr []))))
      | _ \<Rightarrow> Reply 200 (build_info_fallback today))"

definition default_manifest :: json where
  "default_manifest = JObj [(''bookTitle'', JStr ''The Enemy Within''), (''chapters'', JArr [])]"

text \<open>\<^verbatim>\<open>_read_manifest\<close>, and the same two lines inside \<^verbatim>\<open>audio_manifest\<close>.\<close>

definition read_manifest :: "file_doc \<Rightarrow> exn + json" where
  "read_manifest f =
     (case f of NoFile \<Rightarrow> Inr default_manifest | BadText \<Rightarrow> Inl JSONDecodeError | Doc j \<Rightarrow> Inr j)"

definition audio_manifest :: "file_doc \<Rightarrow> user \<Rightarrow> reply" where
  "audio_manifest f u =
     (case read_manifest f of Inl e \<Rightarrow> Uncaught e | Inr j \<Rightarrow> Reply 200 (Document j))"

text \<open>
  What \<^verbatim>\<open>synced_text\<close> meets on the file system for a chapter id. Resolving the path
  of the chapter's file (line 541) and asking whether it exists (line 549) are outside
  both \<^verbatim>\<open>try\<close> blocks: \<open>ResolveFails\<close> and \<open>ExistsFails\<close> are the cases where they
  raise. \<open>Outside\<close>: the resolved synced-text directory is not among the parents of the
  resolved path, or that test raises. \<open>Inside f\<close>: it is, and \<open>f\<close> is what is at the path.
\<close>

datatype synced_path = ResolveFails | Outside | ExistsFails | Inside file_doc

definition synced_text :: "synced_path \<Rightarrow> user \<Rightarrow> reply" where
  "synced_text sp u =
     (case sp of
        ResolveFails \<Rightarrow> Uncaught OSError
      | Outside \<Rightarrow> Reply 400 (Error ''Invalid chapter'')
      | ExistsFails \<Rightarrow> Uncaught OSError
      | Inside NoFile \<Rightarrow> Reply 404 (Error ''No synced text for this chapter'')
      | Inside BadText \<Rightarrow> Reply 500 (Error ''Synced text file is invalid'')
      | Inside (Doc j) \<Rightarrow> Reply 200 (Document j))"

text \<open>The three routes, behind \<^verbatim>\<open>@login_required\<close>; none of them uses the database.\<close>

definition guarded :: "user option \<Rightarrow> (user \<Rightarrow> reply) \<Rightarrow> reply" where
  "guarded cu h = (case cu of None \<Rightarrow> Reply 401 Page | Some u \<Rightarrow> h u)"

section \<open>Media streaming proxy\<close>

subsection \<open>The parts of \<^verbatim>\<open>urllib.parse.urlparse\<close> that the allowlist reads\<close>

text \<open>
  \<^verbatim>\<open>urlsplit\<close> as in CPython 3.11.4 and later, up to the scheme and the netloc; the
  query, the fragment and the parameters are split off the rest afterwards and change
  neither. On code points 0..255 the NFKC check of the netloc never raises. What the
  interpreter accepts of a netloc that holds both brackets differs between releases
  (the IPvFuture pattern, \<^verbatim>\<open>ipaddress.ip_address\<close>, and in later releases the text
  around the brackets): it is the parameter \<open>bracket_ok\<close>, a test on the netloc.
\<close>

definition c0_control_or_space :: "char \<Rightarrow> bool" where
  "c0_control_or_space c = ((of_char c :: nat) \<le> 32)"

definition unsafe_url_byte :: "char \<Rightarrow> bool" where
  "unsafe_url_byte c = ((of_char c :: nat) = 9 \<or> (of_char c :: nat) = 13 \<or> (of_char c :: nat) = 10)"

definition ascii_alpha :: "char \<Rightarrow> bool" where
  "ascii_alpha c =
     (let n = (of_char c :: nat) in (65 \<le> n \<and> n \<le> 90) \<or> (97 \<le> n \<and> n \<le> 122))"

definition scheme_char :: "char \<Rightarrow> bool" where
  "scheme_char c =
     (let n = (of_char c :: nat)
      in (97 \<le> n \<and> n \<le> 122) \<or> (65 \<le> n \<and> n \<le> 90) \<or> (48 \<le> n \<and> n \<le> 57) \<or>
         n = 43 \<or> n = 45 \<or> n = 46)"

text \<open>The scheme and what follows the colon; no scheme leaves the URL as it is.\<close>

definition split_scheme :: "string \<Rightarrow> string \<times> string" where
  "split_scheme url =
     (let i = length (takeWhile (\<lambda>c. c \<noteq> CHR '':'') url)
      in if i < length url \<and> 0 < i \<and> ascii_alpha (hd url) \<and> list_all scheme_char (take i url)
         then (lower (take i url), drop (Suc i) url)
         else ([], url))"

definition netloc_delim :: "char \<Rightarrow> bool" where
  "netloc_delim c = (c = CHR ''/'' \<or> c = CHR ''?'' \<or> c = CHR ''#'')"

definition urlparse :: "(string \<Rightarrow> bool) \<Rightarrow> string \<Rightarrow> exn + string \<times> string" where
  "urlparse bracket_ok url0 =
     (let url1 = filter (\<lambda>c. \<not> unsafe_url_byte c) (dropWhile c0_control_or_space url0);
          (scheme, url) = split_scheme url1
      in if take 2 url = ''//''
         then
          (let netloc = takeWhile (\<lambda>c. \<not> netloc_delim c) (drop 2 url);
               has_open = (CHR ''['' \<in> set netloc);
               has_close = (CHR '']'' \<in> set netloc)
           in if (has_open \<and> \<not> has_close) \<or> (has_close \<and> \<not> has_open) then Inl ValueError
              else if has_open \<and> has_close \<and> \<not> bracket_ok netloc
              then Inl ValueError
              else Inr (scheme, netloc))
         else Inr (scheme, []))"

text \<open>The \<^verbatim>\<open>hostname\<close> property of the parse result.\<close>

definition hostname :: "string \<Rightarrow> string option" where
  "hostname netloc =
     (let hostinfo = rev (takeWhile (\<lambda>c. c \<noteq> CHR ''@'') (rev netloc));
          h = (if CHR ''['' \<in> set hostinfo
               then takeWhile (\<lambda>c. c \<noteq> CHR '']'')
                      (drop 1 (dropWhile (\<lambda>c. c \<noteq> CHR ''['') hostinfo))
               else takeWhile (\<lambda>c. c \<noteq> CHR '':'') hostinfo)
      in if h = [] then None
         else Some (lower (takeWhile (\<lambda>c. c \<noteq> CHR ''%'') h) @
                    dropWhile (\<lambda>c. c \<noteq> CHR ''%'') h))"

subsection \<open>The handler\<close>

text \<open>
  \<^verbatim>\<open>_is_allowed_audio_source\<close>. A source that is not a string makes \<^verbatim>\<open>urlparse\<close> raise,
  and every exception is answered with False.
\<close>

definition is_allowed_audio_source :: "(string \<Rightarrow> bool) \<Rightarrow> json \<Rightarrow> bool" where
  "is_allowed_audio_source bracket_ok src =
     (case src of
        JStr url \<Rightarrow>
          (case urlparse bracket_ok url of
             Inl e \<Rightarrow> False
           | Inr (scheme, netloc) \<Rightarrow>
               if scheme \<noteq> ''http'' \<and> scheme \<noteq> ''https'' then False
               else
                (let host = lower (case hostname netloc of None \<Rightarrow> [] | Some h \<Rightarrow> h)
                 in endswith host ''dropbox.com'' \<or> endswith host ''dropboxusercontent.com''))
      | _ \<Rightarrow> False)"

text \<open>What \<^verbatim>\<open>for ch in ...\<close> runs over.\<close>

fun py_iter :: "json \<Rightarrow> exn + json list" where
  "py_iter (JArr xs) = Inr xs"
| "py_iter (JStr s) = Inr (map (\<lambda>c. JStr [c]) s)"
| "py_iter (JObj kvs) = Inr (map (\<lambda>kv. JStr (fst kv)) kvs)"
| "py_iter _ = Inl TypeError"

fun find_chapter :: "json list \<Rightarrow> string \<Rightarrow> exn + json" where
  "find_chapter [] chapter_id = Inr JNull"
| "find_chapter (ch # rest) chapter_id =
     (case py_get ch ''id'' of
        Inl e \<Rightarrow> Inl e
      | Inr i \<Rightarrow> if i = JStr chapter_id then py_get ch ''audioUrl''
                 else find_chapter rest chapter_id)"

text \<open>\<^verbatim>\<open>_find_chapter_audio_url\<close>; \<open>JNull\<close> is Python's None.\<close>

definition find_chapter_audio_url :: "json \<Rightarrow> string \<Rightarrow> exn + json" where
  "find_chapter_audio_url manifest chapter_id =
     (case py_get manifest ''chapters'' of
        Inl e \<Rightarrow> Inl e
      | Inr chs \<Rightarrow>
          (case py_iter (py_or chs (JArr [])) of
             Inl e \<Rightarrow> Inl e
           | Inr xs \<Rightarrow> find_chapter xs chapter_id))"

text \<open>
  The upstream host as the handler meets it: \<^verbatim>\<open>urlopen\<close> raises with a message, or
  answers with a status, headers and the chunks that \<^verbatim>\<open>read(65536)\<close> returns in turn.
\<close>

datatype upstream = OpenFailed string | Opened nat "(string \<times> string) list" "string list"

definition request_headers :: "string option \<Rightarrow> (string \<times> string) list" where
  "request_headers range_header =
     [(''User-Agent'', ''TEW-BetaReader/1.0''),
      (''Accept'', ''audio/mpeg,audio/*;q=0.9,*/*;q=0.1'')] @
     (case range_header of
        None \<Rightarrow> []
      | Some r \<Rightarrow> if r = [] then [] else [(''Range'', r)])"

text \<open>\<^verbatim>\<open>upstream_headers.get(h)\<close>: the first header of that name, whatever its case.\<close>

definition header_get :: "(string \<times> string) list \<Rightarrow> string \<Rightarrow> string option" where
  "header_get headers h = map_of (map (\<lambda>kv. (lower (fst kv), snd kv)) headers) (lower h)"

definition passthrough :: "(string \<times> string) list \<Rightarrow> string \<Rightarrow> (string \<times> string) list" where
  "passthrough upstream_headers h =
     (case header_get upstream_headers h of
        None \<Rightarrow> []
      | Some v \<Rightarrow> if v = [] then [] else [(h, v)])"

definition response_headers :: "(string \<times> string) list \<Rightarrow> (string \<times> string) list" where
  "response_headers upstream_headers =
     [(''Content-Type'',
       (case header_get upstream_headers ''Content-Type'' of
          None \<Rightarrow> ''audio/mpeg''
        | Some v \<Rightarrow> if v = [] then ''audio/mpeg'' else v))] @
     concat (map (passthrough upstream_headers)
       [''Accept-Ranges'', ''Content-Range'', ''Content-Length'', ''Content-Disposition'']) @
     [(''Cache-Control'', ''no-store'')]"

text \<open>
  \<^verbatim>\<open>stream_audio\<close>. The second component lists the upstream requests made, each with
  its URL and headers: it is empty unless the handler reaches \<^verbatim>\<open>urlopen\<close>. The URL
  handed to \<^verbatim>\<open>urlopen\<close> is the manifest's string as it stands.
\<close>

definition stream_audio ::
  "(string \<Rightarrow> bool) \<Rightarrow> (string \<Rightarrow> (string \<times> string) list \<Rightarrow> upstream) \<Rightarrow> file_doc \<Rightarrow>
   string option \<Rightarrow> string \<Rightarrow> user \<Rightarrow> reply \<times> (string \<times> (string \<times> string) list) list" where
  "stream_audio bracket_ok urlopen manifest_file range_header chapter_id u =
     (case read_manifest manifest_file of Inl e \<Rightarrow> (Uncaught e, []) | Inr manifest \<Rightarrow>
      case find_chapter_audio_url manifest chapter_id of Inl e \<Rightarrow> (Uncaught e, [])
      | Inr src \<Rightarrow>
      if \<not> truthy src then (Reply 404 (Error ''Unknown chapter''), [])
      else if \<not> is_allowed_audio_source bracket_ok src
      then (Reply 400 (Error ''Audio source not allowed''), [])
      else
       (case src of
          JStr url \<Rightarrow>
            (let headers = request_headers range_header in
             case urlopen url headers of
               OpenFailed msg \<Rightarrow>
                 (Reply 502 (Error (''Failed to fetch audio: '' @ msg)), [(url, headers)])
             | Opened status upstream_headers chunks \<Rightarrow>
                 (Reply status (Audio (response_headers upstream_headers)
                                  (takeWhile (\<lambda>c. c \<noteq> []) chunks)),
                  [(url, headers)]))
        | _ \<Rightarrow> (Uncaught TypeError, [])))"

definition stream_audio_route ::
  "(string \<Rightarrow> bool) \<Rightarrow> (string \<Rightarrow> (string \<times> string) list \<Rightarrow> upstream) \<Rightarrow> file_doc \<Rightarrow>
   string option \<Rightarrow> user option \<Rightarrow> string \<Rightarrow> reply \<times> (string \<times> (string \<times> string) list) list" where
  "stream_audio_route bracket_ok urlopen manifest_file range_header cu chapter_id =
     (case cu of
        None \<Rightarrow> (Reply 401 Page, [])
      | Some u \<Rightarrow> stream_audio bracket_ok urlopen manifest_file range_header chapter_id u)"

text \<open>
  The allowlist in the specification's words: the host is one of the two domains or a
  subdomain of one of them.
\<close>

definition host_on_allowlist :: "string \<Rightarrow> bool" where
  "host_on_allowlist host =
     (host = ''dropbox.com'' \<or> endswith host ''.dropbox.com'' \<or>
      host = ''dropboxusercontent.com'' \<or> endswith host ''.dropboxusercontent.com'')"

section \<open>Admin view\<close>

text \<open>\<^verbatim>\<open>_require_admin\<close>: the reply to return, or nothing when the caller may go on.\<close>

definition require_admin :: "user option \<Rightarrow> reply option" where
  "require_admin cu =
     (case cu of
        None \<Rightarrow> Some (Reply 401 (Error ''Unauthenticated''))
      | Some u \<Rightarrow> if \<not> u_is_admin u then Some (Reply 403 (Error ''Forbidden'')) else None)"

text \<open>
  Where SQL leaves the order of equal keys open, the model keeps the order of the table.
\<close>

definition admin_list_invites :: "user option \<Rightarrow> session \<Rightarrow> reply \<times> session" where
  "admin_list_invites cu s =
     (case require_admin cu of
        Some err \<Rightarrow> (err, s)
      | None \<Rightarrow>
         (let s1 = emit (Query ''invite_codes'') s;
              rows = invite_codes (working s1)
          in (Reply 200 (InviteItems (filter (\<lambda>r. \<not> is_used r) rows @ filter is_used rows)), s1)))"

definition admin_add_invite :: "payload \<Rightarrow> user option \<Rightarrow> session \<Rightarrow> reply \<times> session" where
  "admin_add_invite p cu s =
     (case require_admin cu of
        Some err \<Rightarrow> (err, s)
      | None \<Rightarrow>
         (case get_json_force p of Inl r \<Rightarrow> (r, s) | Inr payload \<Rightarrow>
          case get_stripped payload ''code'' of Inl e \<Rightarrow> (Uncaught e, s) | Inr code \<Rightarrow>
          if code = [] then (Reply 400 (Error ''Missing code''), s)
          else
           (let s1 = emit (Get ''invite_codes'') s in
            if \<not> pg_text_ok code then (Uncaught DBAPIError, s1)
            else if find (\<lambda>c. ic_code c = code) (invite_codes (working s1)) \<noteq> None
            then (Reply 400 (Error ''Code already exists''), s1)
            else
             (let s2 = emit (Add ''invite_codes'')
                         (s1\<lparr>working := (working s1)\<lparr>invite_codes :=
                            invite_codes (working s1) @
                            [\<lparr>ic_code = code, ic_used_at = None, ic_used_by_email = None\<rparr>]\<rparr>\<rparr>)
              in case commit s2 of
                   Inl e \<Rightarrow> (Uncaught e, s2)
                 | Inr s3 \<Rightarrow> (Reply 200 Ok, s3)))))"

definition admin_feedback :: "user option \<Rightarrow> session \<Rightarrow> reply \<times> session" where
  "admin_feedback cu s =
     (case require_admin cu of
        Some err \<Rightarrow> (err, s)
      | None \<Rightarrow>
         (let s1 = emit (Query ''feedback'') s
          in (Reply 200 (FeedbackItems (rev (sort_key fb_created_at (feedback (working s1))))), s1)))"

definition admin_update_feedback ::
  "nat \<Rightarrow> payload \<Rightarrow> user option \<Rightarrow> session \<Rightarrow> reply \<times> session" where
  "admin_update_feedback feedback_id p cu s =
     (case require_admin cu of
        Some err \<Rightarrow> (err, s)
      | None \<Rightarrow>
         (case get_json_force p of Inl r \<Rightarrow> (r, s) | Inr payload \<Rightarrow>
          case get_stripped payload ''status'' of Inl e \<Rightarrow> (Uncaught e, s) | Inr status0 \<Rightarrow>
          (let status = lower status0 in
           if status \<noteq> ''new'' \<and> status \<noteq> ''triaged'' \<and> status \<noteq> ''fixed''
           then (Reply 400 (Error ''Invalid status''), s)
           else
            (let s1 = emit (Query ''feedback'') s in
             case find (\<lambda>r. fb_id r = feedback_id) (feedback (working s1)) of
               None \<Rightarrow> (Reply 404 (Error ''Not found''), s1)
             | Some row \<Rightarrow>
                (let s2 = s1\<lparr>working := (working s1)\<lparr>feedback :=
                            map (\<lambda>r. if fb_id r = fb_id row then r\<lparr>fb_status := status\<rparr> else r)
                              (feedback (working s1))\<rparr>\<rparr>
                 in case commit s2 of
                      Inl e \<Rightarrow> (Uncaught e, s2)
                    | Inr s3 \<Rightarrow> (Reply 200 Ok, s3))))))"

definition progress_summary :: "listening_progress list \<Rightarrow> user \<Rightarrow> user \<times> nat \<times> listening_progress option" where
  "progress_summary rows u =
     (let mine = filter (\<lambda>r. lp_user_id r = u_id u) rows
      in (u, length mine,
          (case rev (sort_key lp_updated_at mine) of [] \<Rightarrow> None | latest # _ \<Rightarrow> Some latest)))"

definition admin_progress :: "user option \<Rightarrow> session \<Rightarrow> reply \<times> session" where
  "admin_progress cu s =
     (case require_admin cu of
        Some err \<Rightarrow> (err, s)
      | None \<Rightarrow>
         (let us = sort_key u_created_at (users (working s));
              s1 = s\<lparr>trace := trace s @ Query ''users'' #
                      concat (map (\<lambda>u. [Query ''listening_progress'', Query ''listening_progress'']) us)\<rparr>
          in (Reply 200 (ProgressItems (map (progress_summary (listening_progress (working s1))) us)),
              s1)))"

text \<open>The five admin routes on the database \<open>d\<close>, for the caller with this cookie.\<close>

datatype admin_call =
    ListInvites
  | AddInvite payload
  | ListFeedback
  | UpdateFeedback nat payload
  | ListProgress

fun admin_route :: "admin_call \<Rightarrow> db \<Rightarrow> nat option \<Rightarrow> reply \<times> session" where
  "admin_route ListInvites d cookie = admin_list_invites (load_user d cookie) (begin_session d)"
| "admin_route (AddInvite p) d cookie = admin_add_invite p (load_user d cookie) (begin_session d)"
| "admin_route ListFeedback d cookie = admin_feedback (load_user d cookie) (begin_session d)"
| "admin_route (UpdateFeedback i p) d cookie =
     admin_update_feedback i p (load_user d cookie) (begin_session d)"
| "admin_route ListProgress d cookie = admin_progress (load_user d cookie) (begin_session d)"

section \<open>Sample data\<close>

definition alice :: user where
  "alice = new_user 1 ''Alice'' ''alice@example.com'' ''h1'' 10"

definition bob :: user where
  "bob = new_user 2 ''Bob'' ''bob@example.com'' ''h2'' 20"

definition sample_db :: db where
  "sample_db =
     \<lparr>invite_codes =
        [\<lparr>ic_code = ''INV0'', ic_used_at = Some 10, ic_used_by_email = Some ''alice@example.com''\<rparr>,
         \<lparr>ic_code = ''INV1'', ic_used_at = None, ic_used_by_email = None\<rparr>],
      users = [alice, bob],
      listening_progress = [],
      bookmarks =
        [\<lparr>bm_id = 7, bm_user_id = 2, bm_chapter_id = ''ch1'', bm_position_seconds = Finite 3,
          bm_label = None, bm_created_at = 30\<rparr>],
      notes_table =
        [\<lparr>nt_id = 4, nt_user_id = 2, nt_chapter_id = ''ch1'', nt_position_seconds = Finite 5,
          nt_note_type = None, nt_severity = None, nt_spoiler = False, nt_text = ''typo'',
          nt_created_at = 31, nt_updated_at = 31\<rparr>],
      feedback = []\<rparr>"

text \<open>A stand-in for \<^verbatim>\<open>float\<close> on strings that knows two decimal literals.\<close>

definition sample_float_of_str :: "string \<Rightarrow> pyfloat option" where
  "sample_float_of_str s =
     (if s = ''5.0'' then Some (Finite 5) else if s = ''0.1'' then Some (Finite 0.1) else None)"

definition evil_manifest :: json where
  "evil_manifest =
     JObj [(''bookTitle'', JStr ''T''),
           (''chapters'',
            JArr [JObj [(''id'', JStr ''ch1''),
                        (''audioUrl'', JStr ''https://evildropbox.com/a.mp3'')]])]"

definition font_request :: "json \<Rightarrow> payload" where
  "font_request v = Parsed (JObj [(''fontScale'', v)])"

definition settings_request :: payload where
  "settings_request =
     Parsed (JObj [(''theme'', JStr ''sepia''), (''fontScale'', JStr ''big''),
                   (''lineHeight'', JInt 2)])"

definition signup_request :: "string \<Rightarrow> string \<Rightarrow> payload" where
  "signup_request em c =
     Parsed (JObj [(''name'', JStr ''A''), (''email'', JStr em), (''password'', JStr ''p''),
                   (''inviteCode'', JStr c)])"

definition sample_hash :: "string \<Rightarrow> string" where
  "sample_hash pw = ''hash:'' @ pw"

definition progress_request :: "string \<Rightarrow> json \<Rightarrow> json" where
  "progress_request chapter pos = JObj [(''chapterId'', JStr chapter), (''positionSeconds'', pos)]"

definition bobs_bookmark :: bookmark where
  "bobs_bookmark = \<lparr>bm_id = 7, bm_user_id = 2, bm_chapter_id = ''ch1'',
     bm_position_seconds = Finite 3, bm_label = None, bm_created_at = 30\<rparr>"

definition bobs_note :: note_row where
  "bobs_note = \<lparr>nt_id = 4, nt_user_id = 2, nt_chapter_id = ''ch1'', nt_position_seconds = Finite 5,
     nt_note_type = None, nt_severity = None, nt_spoiler = False, nt_text = ''typo'',
     nt_created_at = 31, nt_updated_at = 31\<rparr>"

definition bad_position :: json where
  "bad_position = JObj [(''chapterId'', JStr ''ch1''), (''positionSeconds'', JStr ''abc''),
                        (''text'', JStr ''typo'')]"

section \<open>Predicates of the properties\<close>

text \<open>
  What a signup request supplies for a key (the trimmed string the handler reads), whether
  the invite code with this primary key is used, whether a user row has this email, and
  the database after a signup.
\<close>

definition supplied :: "payload \<Rightarrow> string \<Rightarrow> string option" where
  "supplied p k =
     (case p of
        Unparsable \<Rightarrow> None
      | Parsed j \<Rightarrow> (case get_stripped j k of Inl e \<Rightarrow> None | Inr s \<Rightarrow> Some s))"

definition invite_used :: "db \<Rightarrow> string \<Rightarrow> bool" where
  "invite_used d c =
     (case find (\<lambda>r. ic_code r = c) (invite_codes d) of None \<Rightarrow> False | Some r \<Rightarrow> is_used r)"

definition email_registered :: "db \<Rightarrow> string \<Rightarrow> bool" where
  "email_registered d e = list_ex (\<lambda>u. u_email u = e) (users d)"

definition signed_up :: "nat \<Rightarrow> (string \<Rightarrow> string) \<Rightarrow> string \<Rightarrow> string \<Rightarrow> string \<Rightarrow> string \<Rightarrow> db \<Rightarrow> db" where
  "signed_up now hash_pw nm em pw c d =
     consume_invite c now em
       (add_user (new_user (next_id (map u_id (users d))) nm em (hash_pw pw) now) d)"

text \<open>The rows of one user and chapter.\<close>

definition progress_key :: "nat \<Rightarrow> string \<Rightarrow> listening_progress \<Rightarrow> bool" where
  "progress_key uid chapter r = (lp_user_id r = uid \<and> lp_chapter_id r = chapter)"


fun in_range :: "real \<Rightarrow> real \<Rightarrow> pyfloat \<Rightarrow> bool" where
  "in_range lo hi (Finite r) = (lo \<le> r \<and> r \<le> hi)"
| "in_range lo hi _ = False"

definition settings_in_range :: "db \<Rightarrow> bool" where
  "settings_in_range d =
     list_all (\<lambda>u. in_range 0.75 1.6 (u_reader_font_scale u) \<and>
                    in_range 1.2 2.4 (u_reader_line_height u)) (users d)"

text \<open>The row that \<^const>\<open>put_reader_settings\<close> stores for a dict payload.\<close>

definition updated_user ::
  "(string \<Rightarrow> pyfloat option) \<Rightarrow> json \<Rightarrow> json \<Rightarrow> json \<Rightarrow> user \<Rightarrow> user" where
  "updated_user fos th fs lh u =
     apply_line_height fos lh (apply_font_scale fos fs (apply_theme th u))"

section \<open>Properties\<close>

subsection \<open>Shared lemmas\<close>

lemma bit_length_le: "m < 2 ^ k \<Longrightarrow> bit_length m \<le> k"
proof (induction k arbitrary: m)
  case 0
  then show ?case by (simp add: bit_length.simps)
next
  case (Suc k)
  then have "m div 2 < 2 ^ k" by simp
  then have "bit_length (m div 2) \<le> k" by (rule Suc.IH)
  then show ?case by (subst bit_length.simps) simp
qed

text \<open>An int below \<open>2 ^ 53\<close> in magnitude converts exactly.\<close>

lemma round_binary64_small: "\<bar>n\<bar> < 2 ^ 53 \<Longrightarrow> round_binary64 n = n"
proof -
  assume "\<bar>n\<bar> < 2 ^ 53"
  then have "nat \<bar>n\<bar> < 2 ^ 53" by simp
  then have "bit_length (nat \<bar>n\<bar>) - 53 = 0" using bit_length_le by fastforce
  then show ?thesis by (simp add: round_binary64_def Let_def mult_sgn_abs)
qed

text \<open>Above that it rounds: \<open>2 ^ 53 + 1\<close> is a tie and goes to the even significand.\<close>

lemma bit_length_gt: "2 ^ k \<le> m \<Longrightarrow> k < bit_length m"
proof (induction k arbitrary: m)
  case 0
  then show ?case by (subst bit_length.simps) simp
next
  case (Suc k)
  then have "2 ^ k \<le> m div 2" by simp
  then have "k < bit_length (m div 2)" by (rule Suc.IH)
  moreover have "(0::nat) < 2 ^ Suc k" by simp
  with Suc.prems have "m \<noteq> 0" by linarith
  ultimately show ?case by (subst bit_length.simps) simp
qed

lemma bit_length_eq: "2 ^ k \<le> m \<Longrightarrow> m < 2 ^ Suc k \<Longrightarrow> bit_length m = Suc k"
  using bit_length_gt [of k m] bit_length_le [of m "Suc k"] by simp

lemma round_binary64_tie: "round_binary64 9007199254740993 = 9007199254740992"
proof -
  have "bit_length 9007199254740993 = Suc 53"
    by (rule bit_length_eq) simp_all
  then show ?thesis by (simp add: round_binary64_def Let_def)
qed

lemma py_float_small_int:
  "\<bar>n\<bar> < 2 ^ 53 \<Longrightarrow> py_float fos (JInt n) = Inr (Finite (of_int n))"
  by (simp add: round_binary64_small)

lemma clamp_font: "in_range 0.75 1.6 (py_max (Finite 0.75) (py_min (Finite 1.6) x))"
  by (cases x) (simp_all add: py_max_def py_min_def)

lemma clamp_line: "in_range 1.2 2.4 (py_max (Finite 1.2) (py_min (Finite 2.4) x))"
  by (cases x) (simp_all add: py_max_def py_min_def)

lemma apply_theme_fields [simp]:
  "u_id (apply_theme t u) = u_id u" "u_name (apply_theme t u) = u_name u"
  "u_email (apply_theme t u) = u_email u" "u_password_hash (apply_theme t u) = u_password_hash u"
  "u_is_admin (apply_theme t u) = u_is_admin u" "u_created_at (apply_theme t u) = u_created_at u"
  "u_reader_font_scale (apply_theme t u) = u_reader_font_scale u"
  "u_reader_line_height (apply_theme t u) = u_reader_line_height u"
  by (simp_all add: apply_theme_def split: json.splits)

lemma apply_theme_length: "length (u_reader_theme u) \<le> 12 \<Longrightarrow> length (u_reader_theme (apply_theme t u)) \<le> 12"
  by (auto simp: apply_theme_def split: json.splits)

lemma apply_font_scale_fields [simp]:
  "u_id (apply_font_scale f x u) = u_id u" "u_name (apply_font_scale f x u) = u_name u"
  "u_email (apply_font_scale f x u) = u_email u"
  "u_password_hash (apply_font_scale f x u) = u_password_hash u"
  "u_is_admin (apply_font_scale f x u) = u_is_admin u"
  "u_created_at (apply_font_scale f x u) = u_created_at u"
  "u_reader_theme (apply_font_scale f x u) = u_reader_theme u"
  "u_reader_line_height (apply_font_scale f x u) = u_reader_line_height u"
  by (simp_all add: apply_font_scale_def split: sum.splits)

lemma apply_line_height_fields [simp]:
  "u_id (apply_line_height f x u) = u_id u" "u_name (apply_line_height f x u) = u_name u"
  "u_email (apply_line_height f x u) = u_email u"
  "u_password_hash (apply_line_height f x u) = u_password_hash u"
  "u_is_admin (apply_line_height f x u) = u_is_admin u"
  "u_created_at (apply_line_height f x u) = u_created_at u"
  "u_reader_theme (apply_line_height f x u) = u_reader_theme u"
  "u_reader_font_scale (apply_line_height f x u) = u_reader_font_scale u"
  by (simp_all add: apply_line_height_def split: sum.splits)

lemma apply_font_scale_range:
  "in_range 0.75 1.6 (u_reader_font_scale u) \<Longrightarrow>
   in_range 0.75 1.6 (u_reader_font_scale (apply_font_scale f x u))"
  using clamp_font by (simp add: apply_font_scale_def split: sum.splits)

lemma apply_line_height_range:
  "in_range 1.2 2.4 (u_reader_line_height u) \<Longrightarrow>
   in_range 1.2 2.4 (u_reader_line_height (apply_line_height f x u))"
  using clamp_line by (simp add: apply_line_height_def split: sum.splits)

lemma same_id_same_row:
  "distinct (map u_id us) \<Longrightarrow> u \<in> set us \<Longrightarrow> r \<in> set us \<Longrightarrow> u_id r = u_id u \<Longrightarrow> r = u"
  by (meson distinct_map inj_onD)

lemma load_user_Some:
  "load_user d cookie = Some u \<Longrightarrow> u \<in> set (users d) \<and> cookie = Some (u_id u)"
  by (auto simp: load_user_def find_Some_iff split: option.splits)

lemma store_user_constraints:
  assumes ok: "constraints_ok d" and u: "u \<in> set (users d)"
    and same: "u_id u' = u_id u" "u_email u' = u_email u" "u_name u' = u_name u"
      "u_password_hash u' = u_password_hash u"
    and len: "length (u_reader_theme u') \<le> 12"
  shows "constraints_ok (store_user u' d)"
proof -
  let ?f = "\<lambda>r. if u_id r = u_id u' then u' else r"
  from ok have dist: "distinct (map u_id (users d))" by (simp add: constraints_ok_def)
  have row: "r = u" if "r \<in> set (users d)" "u_id r = u_id u'" for r
    using same_id_same_row [OF dist u that(1)] that(2) same(1) by simp
  have ids: "map u_id (users (store_user u' d)) = map u_id (users d)"
    by (simp add: store_user_def comp_def)
  have emails: "map u_email (users (store_user u' d)) = map u_email (users d)"
    using row same(2) by (auto simp: store_user_def comp_def)
  from ok have all: "list_all (\<lambda>u. length (u_name u) \<le> 120 \<and> length (u_email u) \<le> 255 \<and>
      length (u_password_hash u) \<le> 255 \<and> length (u_reader_theme u) \<le> 12) (users d)"
    by (simp add: constraints_ok_def)
  have all': "list_all (\<lambda>u. length (u_name u) \<le> 120 \<and> length (u_email u) \<le> 255 \<and>
      length (u_password_hash u) \<le> 255 \<and> length (u_reader_theme u) \<le> 12) (users (store_user u' d))"
    using all row same len u by (auto simp: list_all_iff store_user_def)
  have rest: "invite_codes (store_user u' d) = invite_codes d"
    "listening_progress (store_user u' d) = listening_progress d"
    "bookmarks (store_user u' d) = bookmarks d" "notes_table (store_user u' d) = notes_table d"
    "feedback (store_user u' d) = feedback d"
    by (simp_all add: store_user_def)
  from ok all' show ?thesis
    unfolding constraints_ok_def ids emails rest by blast
qed

lemma find_store_user:
  "u_id u' = i \<Longrightarrow> find (\<lambda>r. u_id r = i) us = Some u \<Longrightarrow>
   find (\<lambda>r. u_id r = i) (map (\<lambda>r. if u_id r = u_id u' then u' else r) us) = Some u'"
  by (induction us) (auto split: if_splits)

lemma load_user_store_user:
  "load_user d cookie = Some u \<Longrightarrow> u_id u' = u_id u \<Longrightarrow> load_user (store_user u' d) cookie = Some u'"
  by (cases cookie) (auto simp: load_user_def store_user_def find_store_user find_Some_iff)

lemma put_reader_settings_dict:
  assumes ok: "constraints_ok d" and cu: "load_user d cookie = Some u"
    and th: "py_get (py_or (get_json_silent p) (JObj [])) ''theme'' = Inr th"
    and fs: "py_get (py_or (get_json_silent p) (JObj [])) ''fontScale'' = Inr fs"
    and lh: "py_get (py_or (get_json_silent p) (JObj [])) ''lineHeight'' = Inr lh"
  shows "put_reader_settings_route fos d cookie p =
     (get_reader_settings (updated_user fos th fs lh u),
      \<lparr>committed = store_user (updated_user fos th fs lh u) d,
       working = store_user (updated_user fos th fs lh u) d, trace = [Commit]\<rparr>)"
proof -
  from cu have mem: "u \<in> set (users d)" by (simp add: load_user_Some)
  from ok mem have "length (u_reader_theme u) \<le> 12"
    by (simp add: constraints_ok_def list_all_iff)
  then have "length (u_reader_theme (updated_user fos th fs lh u)) \<le> 12"
    by (simp add: updated_user_def apply_theme_length)
  then have "constraints_ok (store_user (updated_user fos th fs lh u) d)"
    using store_user_constraints [OF ok mem, of "updated_user fos th fs lh u"]
    by (simp add: updated_user_def)
  then show ?thesis
    using cu th fs lh
    by (simp add: put_reader_settings_route_def login_required_def put_reader_settings_def
        begin_session_def commit_def emit_def updated_user_def Let_def)
qed

lemma put_reader_settings_committed:
  "committed (snd (put_reader_settings_route fos d cookie p)) = d \<or>
   (\<exists>u th fs lh. load_user d cookie = Some u \<and>
      committed (snd (put_reader_settings_route fos d cookie p)) = store_user (updated_user fos th fs lh u) d)"
  by (auto simp: put_reader_settings_route_def login_required_def put_reader_settings_def
        begin_session_def commit_def emit_def updated_user_def Let_def
      split: option.splits sum.splits)

lemma settings_in_range_store:
  assumes "settings_in_range d" "u \<in> set (users d)"
  shows "settings_in_range (store_user (updated_user fos th fs lh u) d)"
proof -
  from assms have "in_range 0.75 1.6 (u_reader_font_scale u)" "in_range 1.2 2.4 (u_reader_line_height u)"
    by (simp_all add: settings_in_range_def list_all_iff)
  then have "in_range 0.75 1.6 (u_reader_font_scale (updated_user fos th fs lh u))"
    "in_range 1.2 2.4 (u_reader_line_height (updated_user fos th fs lh u))"
    using apply_font_scale_range [of "apply_theme th u" fos fs]
      apply_line_height_range [of "apply_font_scale fos fs (apply_theme th u)" fos lh]
    by (simp_all add: updated_user_def)
  with assms(1) show ?thesis
    by (auto simp: settings_in_range_def store_user_def list_all_iff)
qed

lemma put_reader_settings_invariant:
  "settings_in_range d \<Longrightarrow> settings_in_range (committed (snd (put_reader_settings_route fos d cookie p)))"
  using put_reader_settings_committed [of fos d cookie p]
  by (auto simp: settings_in_range_store load_user_Some)


lemma py_get_Inr_dict: "py_get j k = Inr v \<Longrightarrow> \<exists>kvs. j = JObj kvs"
  by (cases j) simp_all

lemma settings_payload_dict:
  "py_or (get_json_silent Unparsable) (JObj []) = JObj []"
  "\<not> truthy j \<Longrightarrow> py_or (get_json_silent (Parsed j)) (JObj []) = JObj []"
  "py_or (get_json_silent (Parsed (JObj (kv # kvs)))) (JObj []) = JObj (kv # kvs)"
  by (simp_all add: get_json_silent_def py_or_def)

lemma load_user_sample_alice: "load_user sample_db (Some 1) = Some alice"
  by (simp add: load_user_def sample_db_def alice_def new_user_def)

lemma sample_db_ok: "constraints_ok sample_db"
  by (simp add: constraints_ok_def sample_db_def alice_def bob_def new_user_def)


subsection \<open>Identity check\<close>

text \<open>
  C7. A request to \<^verbatim>\<open>GET /api/auth/me\<close> without authentication is answered with status
  200 and the body \<^verbatim>\<open>{"authenticated": false}\<close>; whatever the cookie, the status of the
  endpoint is 200, never 401.
\<close>

theorem me_never_fails:
  "me None = Reply 200 AuthFalse \<and> get_auth_me d None = Reply 200 AuthFalse \<and>
   status_of (get_auth_me d cookie) = 200 \<and> status_of (me cu) = 200"
  by (simp add: me_def get_auth_me_def load_user_def split: option.splits)

subsection \<open>Admin guard\<close>

text \<open>
  C9. Every admin endpoint answers an unauthenticated request with 401 and a request of
  an authenticated user whose \<^verbatim>\<open>is_admin\<close> flag is false with 403, and in both cases the
  session is as it began: nothing was read (the trace is empty) and nothing written.
\<close>

theorem admin_guard:
  "(load_user d cookie = None \<longrightarrow>
      admin_route c d cookie =
        (Reply 401 (Error ''Unauthenticated''), \<lparr>committed = d, working = d, trace = []\<rparr>)) \<and>
   (\<forall>u. load_user d cookie = Some u \<and> \<not> u_is_admin u \<longrightarrow>
      admin_route c d cookie =
        (Reply 403 (Error ''Forbidden''), \<lparr>committed = d, working = d, trace = []\<rparr>))"
  by (cases c)
     (simp_all add: require_admin_def begin_session_def admin_list_invites_def
        admin_add_invite_def admin_feedback_def admin_update_feedback_def admin_progress_def)

theorem admin_guard_witness:
  "load_user sample_db None = None \<and>
   admin_route (AddInvite (Parsed (JObj [(''code'', JStr ''INV9'')]))) sample_db None =
     (Reply 401 (Error ''Unauthenticated''),
      \<lparr>committed = sample_db, working = sample_db, trace = []\<rparr>) \<and>
   load_user sample_db (Some 2) = Some bob \<and> \<not> u_is_admin bob \<and>
   admin_route (AddInvite (Parsed (JObj [(''code'', JStr ''INV9'')]))) sample_db (Some 2) =
     (Reply 403 (Error ''Forbidden''),
      \<lparr>committed = sample_db, working = sample_db, trace = []\<rparr>)"
proof -
  have a: "load_user sample_db None = None" by (simp add: load_user_def)
  have b: "load_user sample_db (Some 2) = Some bob"
    by (simp add: load_user_def sample_db_def alice_def bob_def new_user_def)
  have n: "\<not> u_is_admin bob" by (simp add: bob_def new_user_def)
  from admin_guard [of sample_db None "AddInvite (Parsed (JObj [(''code'', JStr ''INV9'')]))"]
       admin_guard [of sample_db "Some 2" "AddInvite (Parsed (JObj [(''code'', JStr ''INV9'')]))"]
       a b n
  show ?thesis by blast
qed

subsection \<open>Persisted documents\<close>

text \<open>
  C4, as the code has it. The claim is that a malformed manifest, synced-text file or
  build-info file gives a safe default and never an error response. A synced-text file
  that does not decode is answered with the error reply of status 500 that the handler
  builds for it, and a manifest that does not decode leaves the handler as an exception.
\<close>

theorem malformed_document_counterexample:
  "guarded (Some alice) (synced_text (Inside BadText)) =
     Reply 500 (Error ''Synced text file is invalid'') \<and>
   guarded (Some alice) (audio_manifest BadText) = Uncaught JSONDecodeError \<and>
   status_of (guarded (Some alice) (audio_manifest BadText)) = 500"
  by (simp add: guarded_def synced_text_def audio_manifest_def read_manifest_def)

text \<open>
  C4, amended. The build-info handler answers 200 with a well-shaped body whatever the
  file holds: the fallback when the file is missing, does not decode or is not an
  object, and a list for \<^verbatim>\<open>whatChanged\<close> in every case. A missing manifest gives the
  default empty manifest, and a manifest or synced-text file that decodes is returned
  as it is, whatever its shape. A synced-text file that does not decode is answered
  with status 500 and the body \<^verbatim>\<open>{"error": "Synced text file is invalid"}\<close>.
\<close>

theorem documents_degrade:
  "(\<exists>dv ua wc. build_info today str_of f u = Reply 200 (BuildInfo dv ua (JArr wc))) \<and>
   build_info today str_of NoFile u = Reply 200 (BuildInfo ''v0'' today (JArr [])) \<and>
   build_info today str_of BadText u = Reply 200 (BuildInfo ''v0'' today (JArr [])) \<and>
   build_info today str_of (Doc JNull) u = Reply 200 (BuildInfo ''v0'' today (JArr [])) \<and>
   build_info today str_of (Doc (JBool b)) u = Reply 200 (BuildInfo ''v0'' today (JArr [])) \<and>
   build_info today str_of (Doc (JInt n)) u = Reply 200 (BuildInfo ''v0'' today (JArr [])) \<and>
   build_info today str_of (Doc (JFloat x)) u = Reply 200 (BuildInfo ''v0'' today (JArr [])) \<and>
   build_info today str_of (Doc (JStr t)) u = Reply 200 (BuildInfo ''v0'' today (JArr [])) \<and>
   build_info today str_of (Doc (JArr xs)) u = Reply 200 (BuildInfo ''v0'' today (JArr [])) \<and>
   build_info today str_of (Doc (JObj [])) u =
     Reply 200 (BuildInfo (str_of (JStr ''v0'')) (str_of (JStr today)) (JArr [])) \<and>
   audio_manifest NoFile u = Reply 200 (Document default_manifest) \<and>
   audio_manifest (Doc j) u = Reply 200 (Document j) \<and>
   synced_text (Inside (Doc j)) u = Reply 200 (Document j) \<and>
   synced_text (Inside BadText) u = Reply 500 (Error ''Synced text file is invalid'')"
  by (auto simp: build_info_def build_info_fallback_def audio_manifest_def read_manifest_def
        synced_text_def py_or_def split: file_doc.splits json.splits)

subsection \<open>Signup\<close>

lemma find_None_list_ex: "(find P xs \<noteq> None) = list_ex P xs"
  by (induction xs) auto

lemma find_consume:
  "find (\<lambda>r. ic_code r = c) rows = Some row \<Longrightarrow>
   find (\<lambda>r. ic_code r = c)
     (map (\<lambda>r. if ic_code r = c then r\<lparr>ic_used_at := Some now, ic_used_by_email := Some em\<rparr> else r) rows)
   = Some (row\<lparr>ic_used_at := Some now, ic_used_by_email := Some em\<rparr>)"
  by (induction rows) (auto split: if_splits)

lemma signed_up_used:
  "find (\<lambda>r. ic_code r = c) (invite_codes d) = Some row \<Longrightarrow>
   invite_used (signed_up now hash_pw nm em pw c d) c"
  by (simp add: invite_used_def signed_up_def consume_invite_def add_user_def find_consume is_used_def)

lemma signed_up_registered: "email_registered (signed_up now hash_pw nm em pw c d) em"
  by (simp add: email_registered_def signed_up_def consume_invite_def add_user_def new_user_def)

lemma find_Some_P: "find P xs = Some x \<Longrightarrow> P x"
  by (induction xs) (auto split: if_splits)

lemma new_user_id [simp]: "u_id (new_user i nm em ph now) = i"
  by (simp add: new_user_def)

lemma find_code: "find (\<lambda>r. ic_code r = c) rows = Some row \<Longrightarrow> ic_code row = c"
  by (induction rows) (auto split: if_splits)

lemma signup_cases_raw:
  assumes "signup_route now hash_pw d p = (r, s', login)"
  shows "(r \<noteq> Reply 200 Ok \<and> 400 \<le> status_of r \<and> committed s' = d \<and> login = None \<and>
          Commit \<notin> set (trace s')) \<or>
         (\<exists>nm e pw c row. r = Reply 200 Ok \<and>
            supplied p ''name'' = Some nm \<and> supplied p ''email'' = Some e \<and>
            supplied p ''inviteCode'' = Some c \<and>
            \<not> invite_used d c \<and> \<not> email_registered d (lower e) \<and>
            find (\<lambda>r. ic_code r = c) (invite_codes d) = Some row \<and>
            committed s' = signed_up now hash_pw nm (lower e) pw (ic_code row) d \<and>
            login = Some (next_id (map u_id (users d))) \<and>
            trace s' = [Get ''invite_codes'', Query ''users'', Add ''users'', Add ''invite_codes'', Commit])"
  using assms
  by (auto simp: signup_route_def signup_def get_json_force_def supplied_def invite_used_def
        email_registered_def signed_up_def begin_session_def emit_def commit_def Let_def
        find_None_list_ex [symmetric]
      split: payload.splits sum.splits option.splits json.splits if_splits)

lemma signup_cases:
  assumes "signup_route now hash_pw d p = (r, s', login)"
  shows "(r \<noteq> Reply 200 Ok \<and> 400 \<le> status_of r \<and> committed s' = d \<and> login = None \<and>
          Commit \<notin> set (trace s')) \<or>
         (\<exists>nm e pw c. r = Reply 200 Ok \<and>
            supplied p ''name'' = Some nm \<and> supplied p ''email'' = Some e \<and>
            supplied p ''inviteCode'' = Some c \<and>
            \<not> invite_used d c \<and> \<not> email_registered d (lower e) \<and>
            (\<exists>row. find (\<lambda>r. ic_code r = c) (invite_codes d) = Some row) \<and>
            committed s' = signed_up now hash_pw nm (lower e) pw c d \<and>
            login = Some (next_id (map u_id (users d))) \<and>
            trace s' = [Get ''invite_codes'', Query ''users'', Add ''users'', Add ''invite_codes'', Commit])"
proof -
  from signup_cases_raw [OF assms]
  consider (failed) "r \<noteq> Reply 200 Ok" "400 \<le> status_of r" "committed s' = d" "login = None"
        "Commit \<notin> set (trace s')"
    | (created) nm e pw c row where "r = Reply 200 Ok"
        "supplied p ''name'' = Some nm" "supplied p ''email'' = Some e"
        "supplied p ''inviteCode'' = Some c"
        "\<not> invite_used d c" "\<not> email_registered d (lower e)"
        "find (\<lambda>r. ic_code r = c) (invite_codes d) = Some row"
        "committed s' = signed_up now hash_pw nm (lower e) pw (ic_code row) d"
        "login = Some (next_id (map u_id (users d)))"
        "trace s' = [Get ''invite_codes'', Query ''users'', Add ''users'', Add ''invite_codes'', Commit]"
    by blast
  then show ?thesis
  proof cases
    case failed
    then show ?thesis by simp
  next
    case created
    from created(7) have "ic_code row = c" by (rule find_code)
    with created show ?thesis by blast
  qed
qed

lemma signup_settings_invariant:
  assumes "settings_in_range d"
  shows "settings_in_range (committed (fst (snd (signup_route now hash_pw d p))))"
proof -
  let ?c = "signup_route now hash_pw d p"
  have e: "?c = (fst ?c, fst (snd ?c), snd (snd ?c))" by simp
  from signup_cases [OF e]
  consider "committed (fst (snd ?c)) = d"
    | nm em pw cd where "committed (fst (snd ?c)) = signed_up now hash_pw nm em pw cd d"
    by blast
  then show ?thesis
  proof cases
    case 1
    with assms show ?thesis by simp
  next
    case 2
    with assms show ?thesis
      by (simp add: settings_in_range_def signed_up_def consume_invite_def add_user_def
          new_user_def)
  qed
qed

lemma strip_plain [simp]: "strip ''A'' = ''A''" "strip ''INV0'' = ''INV0''" "strip ''INV1'' = ''INV1''"
  "strip ''a@x.com'' = ''a@x.com''" "strip ''Alice@Example.com'' = ''Alice@Example.com''"
  by (simp_all add: strip_def py_isspace_def)

lemma lower_samples [simp]: "lower ''a@x.com'' = ''a@x.com''"
  "lower ''Alice@Example.com'' = ''alice@example.com''"
  by code_simp+

lemma signup_used_code:
  "signup_route 50 sample_hash sample_db (signup_request ''a@x.com'' ''INV0'') =
     (Reply 400 (Error ''Invite code already used''),
      \<lparr>committed = sample_db, working = sample_db, trace = [Get ''invite_codes'']\<rparr>, None)"
  by (simp add: signup_route_def signup_def signup_request_def get_json_force_def
      get_stripped_def or_empty_strip_def py_or_def begin_session_def emit_def sample_db_def
      is_used_def pg_text_ok_def pg_opt_ok_def Let_def)

lemma signup_registered_email:
  "signup_route 50 sample_hash sample_db (signup_request ''Alice@Example.com'' ''INV1'') =
     (Reply 400 (Error ''Email already registered''),
      \<lparr>committed = sample_db, working = sample_db,
       trace = [Get ''invite_codes'', Query ''users'']\<rparr>, None)"
  by (simp add: signup_route_def signup_def signup_request_def get_json_force_def
      get_stripped_def or_empty_strip_def py_or_def begin_session_def emit_def sample_db_def
      is_used_def alice_def bob_def new_user_def pg_text_ok_def pg_opt_ok_def Let_def)

lemma signup_fresh:
  "fst (signup_route 50 sample_hash sample_db (signup_request ''a@x.com'' ''INV1'')) = Reply 200 Ok"
  by (simp add: signup_route_def signup_def signup_request_def get_json_force_def
      get_stripped_def or_empty_strip_def py_or_def begin_session_def emit_def sample_db_def
      is_used_def alice_def bob_def new_user_def Let_def commit_def constraints_ok_def
      add_user_def consume_invite_def next_id_def sample_hash_def pg_text_ok_def
      pg_opt_ok_def)

text \<open>
  C2. A signup whose invite code is already used, or whose email (trimmed and
  lower-cased) is already registered, fails (status 400 or above), logs nobody in and
  leaves the database as it was: no user row, and the invite code's \<^verbatim>\<open>used_at\<close> and
  \<^verbatim>\<open>used_by_email\<close> untouched. Every signup that does not answer \<^verbatim>\<open>{"ok": true}\<close>
  leaves the database as it was, and one that does has committed the new user row and
  the consumed invite code together, in the handler's one commit.
\<close>

theorem signup_all_or_nothing:
  assumes "signup_route now hash_pw d p = (r, s', login)"
  shows "(supplied p ''inviteCode'' = Some c \<and> invite_used d c \<longrightarrow>
            r \<noteq> Reply 200 Ok \<and> 400 \<le> status_of r \<and> committed s' = d \<and> login = None) \<and>
         (supplied p ''email'' = Some e \<and> email_registered d (lower e) \<longrightarrow>
            r \<noteq> Reply 200 Ok \<and> 400 \<le> status_of r \<and> committed s' = d \<and> login = None) \<and>
         (r \<noteq> Reply 200 Ok \<longrightarrow>
            400 \<le> status_of r \<and> committed s' = d \<and> login = None \<and> Commit \<notin> set (trace s')) \<and>
         (r = Reply 200 Ok \<longrightarrow>
            (\<exists>nm em pw cd. supplied p ''name'' = Some nm \<and> supplied p ''email'' = Some em \<and>
               supplied p ''inviteCode'' = Some cd \<and>
               committed s' = signed_up now hash_pw nm (lower em) pw cd d \<and>
               \<not> email_registered d (lower em) \<and> email_registered (committed s') (lower em) \<and>
               \<not> invite_used d cd \<and> invite_used (committed s') cd \<and>
               login = Some (next_id (map u_id (users d))) \<and>
               trace s' = [Get ''invite_codes'', Query ''users'', Add ''users'', Add ''invite_codes'', Commit]))"
proof -
  from signup_cases [OF assms]
  consider (failed) "r \<noteq> Reply 200 Ok" "400 \<le> status_of r" "committed s' = d" "login = None"
        "Commit \<notin> set (trace s')"
    | (created) nm em pw cd row where "r = Reply 200 Ok"
        "supplied p ''name'' = Some nm" "supplied p ''email'' = Some em"
        "supplied p ''inviteCode'' = Some cd"
        "\<not> invite_used d cd" "\<not> email_registered d (lower em)"
        "find (\<lambda>r. ic_code r = cd) (invite_codes d) = Some row"
        "committed s' = signed_up now hash_pw nm (lower em) pw cd d"
        "login = Some (next_id (map u_id (users d)))"
        "trace s' = [Get ''invite_codes'', Query ''users'', Add ''users'', Add ''invite_codes'', Commit]"
    by blast
  then show ?thesis
  proof cases
    case failed
    then show ?thesis by simp
  next
    case created
    have u: "invite_used (committed s') cd"
      using created(7,8) by (simp add: signed_up_used)
    have g: "email_registered (committed s') (lower em)"
      using created(8) by (simp add: signed_up_registered)
    have 1: "supplied p ''inviteCode'' = Some c \<and> invite_used d c \<longrightarrow>
            r \<noteq> Reply 200 Ok \<and> 400 \<le> status_of r \<and> committed s' = d \<and> login = None"
      using created(4,5) by auto
    have 2: "supplied p ''email'' = Some e \<and> email_registered d (lower e) \<longrightarrow>
            r \<noteq> Reply 200 Ok \<and> 400 \<le> status_of r \<and> committed s' = d \<and> login = None"
      using created(3,6) by auto
    have 3: "r \<noteq> Reply 200 Ok \<longrightarrow>
        400 \<le> status_of r \<and> committed s' = d \<and> login = None \<and> Commit \<notin> set (trace s')"
      using created(1) by simp
    have 4: "\<exists>nm em pw cd. supplied p ''name'' = Some nm \<and> supplied p ''email'' = Some em \<and>
               supplied p ''inviteCode'' = Some cd \<and>
               committed s' = signed_up now hash_pw nm (lower em) pw cd d \<and>
               \<not> email_registered d (lower em) \<and> email_registered (committed s') (lower em) \<and>
               \<not> invite_used d cd \<and> invite_used (committed s') cd \<and>
               login = Some (next_id (map u_id (users d))) \<and>
               trace s' = [Get ''invite_codes'', Query ''users'', Add ''users'', Add ''invite_codes'', Commit]"
      using created u g by blast
    from 1 2 3 4 show ?thesis by blast
  qed
qed

theorem signup_all_or_nothing_witness:
  "supplied (signup_request ''a@x.com'' ''INV0'') ''inviteCode'' = Some ''INV0'' \<and>
   invite_used sample_db ''INV0'' \<and>
   fst (signup_route 50 sample_hash sample_db (signup_request ''a@x.com'' ''INV0'')) =
     Reply 400 (Error ''Invite code already used'') \<and>
   committed (fst (snd (signup_route 50 sample_hash sample_db
     (signup_request ''a@x.com'' ''INV0'')))) = sample_db \<and>
   supplied (signup_request ''Alice@Example.com'' ''INV1'') ''email'' = Some ''Alice@Example.com'' \<and>
   email_registered sample_db (lower ''Alice@Example.com'') \<and>
   fst (signup_route 50 sample_hash sample_db (signup_request ''Alice@Example.com'' ''INV1'')) =
     Reply 400 (Error ''Email already registered'') \<and>
   committed (fst (snd (signup_route 50 sample_hash sample_db
     (signup_request ''Alice@Example.com'' ''INV1'')))) = sample_db \<and>
   fst (signup_route 50 sample_hash sample_db (signup_request ''a@x.com'' ''INV1'')) = Reply 200 Ok \<and>
   email_registered (committed (fst (snd (signup_route 50 sample_hash sample_db
     (signup_request ''a@x.com'' ''INV1''))))) ''a@x.com'' \<and>
   invite_used (committed (fst (snd (signup_route 50 sample_hash sample_db
     (signup_request ''a@x.com'' ''INV1''))))) ''INV1''"
proof -
  let ?a = "signup_route 50 sample_hash sample_db (signup_request ''a@x.com'' ''INV0'')"
  let ?b = "signup_route 50 sample_hash sample_db (signup_request ''Alice@Example.com'' ''INV1'')"
  let ?c = "signup_route 50 sample_hash sample_db (signup_request ''a@x.com'' ''INV1'')"
  have ea: "?a = (fst ?a, fst (snd ?a), snd (snd ?a))"
    and eb: "?b = (fst ?b, fst (snd ?b), snd (snd ?b))"
    and ec: "?c = (fst ?c, fst (snd ?c), snd (snd ?c))" by simp_all
  have sa: "supplied (signup_request ''a@x.com'' ''INV0'') ''inviteCode'' = Some ''INV0''"
    and sb: "supplied (signup_request ''Alice@Example.com'' ''INV1'') ''email'' = Some ''Alice@Example.com''"
    and sc: "supplied (signup_request ''a@x.com'' ''INV1'') ''email'' = Some ''a@x.com''"
      "supplied (signup_request ''a@x.com'' ''INV1'') ''inviteCode'' = Some ''INV1''"
    by (simp_all add: supplied_def signup_request_def get_stripped_def or_empty_strip_def py_or_def)
  have ua: "invite_used sample_db ''INV0''"
    by (simp add: invite_used_def sample_db_def is_used_def)
  have ub: "email_registered sample_db (lower ''Alice@Example.com'')"
    by (simp add: email_registered_def sample_db_def alice_def bob_def new_user_def)
  have ra: "fst ?a = Reply 400 (Error ''Invite code already used'')"
    by (simp add: signup_used_code)
  have rb: "fst ?b = Reply 400 (Error ''Email already registered'')"
    by (simp add: signup_registered_email)
  from signup_all_or_nothing [OF ea, of "''INV0''"] sa ua
  have ca: "committed (fst (snd ?a)) = sample_db" by blast
  from signup_all_or_nothing [OF eb, of _ "''Alice@Example.com''"] sb ub
  have cb: "committed (fst (snd ?b)) = sample_db" by blast
  from signup_all_or_nothing [OF ec] signup_fresh
  obtain em cd where "supplied (signup_request ''a@x.com'' ''INV1'') ''email'' = Some em"
      "supplied (signup_request ''a@x.com'' ''INV1'') ''inviteCode'' = Some cd"
      "email_registered (committed (fst (snd ?c))) (lower em)"
      "invite_used (committed (fst (snd ?c))) cd"
    by blast
  with sc have cc: "email_registered (committed (fst (snd ?c))) ''a@x.com''"
      "invite_used (committed (fst (snd ?c))) ''INV1''"
    by simp_all
  from sa ua ra ca sb ub rb cb signup_fresh cc show ?thesis by blast
qed


subsection \<open>Reader settings\<close>

text \<open>
  C6. A reader-settings update whose \<^verbatim>\<open>fontScale\<close> converts to the float \<open>x\<close> persists
  \<^verbatim>\<open>max(0.75, min(1.6, x))\<close>, which lies in [0.75, 1.6]: 1.6 for 5.0 and 0.75 for 0.1.
  The same holds for \<^verbatim>\<open>lineHeight\<close> and [1.2, 2.4]. If every stored font scale and line
  height is in its interval before a request to the endpoint, so it is afterwards, and
  likewise after a signup, the one other handler that writes user rows.
\<close>

theorem reader_settings_clamped:
  "(constraints_ok d \<and> load_user d cookie = Some u \<and>
    py_get (py_or (get_json_silent p) (JObj [])) ''fontScale'' = Inr fs \<and>
    py_float fos fs = Inr x \<longrightarrow>
      (\<exists>u'. load_user (committed (snd (put_reader_settings_route fos d cookie p))) cookie = Some u' \<and>
            u_reader_font_scale u' = py_max (Finite 0.75) (py_min (Finite 1.6) x) \<and>
            in_range 0.75 1.6 (u_reader_font_scale u'))) \<and>
   (constraints_ok d \<and> load_user d cookie = Some u \<and>
    py_get (py_or (get_json_silent p) (JObj [])) ''lineHeight'' = Inr lh \<and>
    py_float fos lh = Inr y \<longrightarrow>
      (\<exists>u'. load_user (committed (snd (put_reader_settings_route fos d cookie p))) cookie = Some u' \<and>
            u_reader_line_height u' = py_max (Finite 1.2) (py_min (Finite 2.4) y) \<and>
            in_range 1.2 2.4 (u_reader_line_height u'))) \<and>
   py_max (Finite 0.75) (py_min (Finite 1.6) (Finite 5)) = Finite 1.6 \<and>
   py_max (Finite 0.75) (py_min (Finite 1.6) (Finite 0.1)) = Finite 0.75 \<and>
   (settings_in_range d \<longrightarrow>
      settings_in_range (committed (snd (put_reader_settings_route fos d cookie p)))) \<and>
   (settings_in_range d \<longrightarrow>
      settings_in_range (committed (fst (snd (signup_route now hash_pw d q)))))"
proof (intro conjI impI)
  assume a: "constraints_ok d \<and> load_user d cookie = Some u \<and>
    py_get (py_or (get_json_silent p) (JObj [])) ''fontScale'' = Inr fs \<and> py_float fos fs = Inr x"
  then obtain kvs where j: "py_or (get_json_silent p) (JObj []) = JObj kvs"
    using py_get_Inr_dict by blast
  obtain th lh' where g: "py_get (py_or (get_json_silent p) (JObj [])) ''theme'' = Inr th"
    "py_get (py_or (get_json_silent p) (JObj [])) ''lineHeight'' = Inr lh'"
    by (simp add: j)
  let ?u = "updated_user fos th fs lh' u"
  from a g have r: "committed (snd (put_reader_settings_route fos d cookie p)) = store_user ?u d"
    by (simp add: put_reader_settings_dict)
  have l: "load_user (store_user ?u d) cookie = Some ?u"
    using a by (simp add: load_user_store_user updated_user_def)
  have f: "u_reader_font_scale ?u = py_max (Finite 0.75) (py_min (Finite 1.6) x)"
    using a by (simp add: updated_user_def apply_font_scale_def)
  show "\<exists>u'. load_user (committed (snd (put_reader_settings_route fos d cookie p))) cookie = Some u' \<and>
            u_reader_font_scale u' = py_max (Finite 0.75) (py_min (Finite 1.6) x) \<and>
            in_range 0.75 1.6 (u_reader_font_scale u')"
    using r l f clamp_font [of x] by auto
next
  assume a: "constraints_ok d \<and> load_user d cookie = Some u \<and>
    py_get (py_or (get_json_silent p) (JObj [])) ''lineHeight'' = Inr lh \<and> py_float fos lh = Inr y"
  then obtain kvs where j: "py_or (get_json_silent p) (JObj []) = JObj kvs"
    using py_get_Inr_dict by blast
  obtain th fs' where g: "py_get (py_or (get_json_silent p) (JObj [])) ''theme'' = Inr th"
    "py_get (py_or (get_json_silent p) (JObj [])) ''fontScale'' = Inr fs'"
    by (simp add: j)
  let ?u = "updated_user fos th fs' lh u"
  from a g have r: "committed (snd (put_reader_settings_route fos d cookie p)) = store_user ?u d"
    by (simp add: put_reader_settings_dict)
  have l: "load_user (store_user ?u d) cookie = Some ?u"
    using a by (simp add: load_user_store_user updated_user_def)
  have f: "u_reader_line_height ?u = py_max (Finite 1.2) (py_min (Finite 2.4) y)"
    using a by (simp add: updated_user_def apply_line_height_def)
  show "\<exists>u'. load_user (committed (snd (put_reader_settings_route fos d cookie p))) cookie = Some u' \<and>
            u_reader_line_height u' = py_max (Finite 1.2) (py_min (Finite 2.4) y) \<and>
            in_range 1.2 2.4 (u_reader_line_height u')"
    using r l f clamp_line [of y] by auto
next
  show "py_max (Finite 0.75) (py_min (Finite 1.6) (Finite 5)) = Finite 1.6"
    by (simp add: py_max_def py_min_def)
next
  show "py_max (Finite 0.75) (py_min (Finite 1.6) (Finite 0.1)) = Finite 0.75"
    by (simp add: py_max_def py_min_def)
next
  assume "settings_in_range d"
  then show "settings_in_range (committed (snd (put_reader_settings_route fos d cookie p)))"
    by (rule put_reader_settings_invariant)
next
  assume "settings_in_range d"
  then show "settings_in_range (committed (fst (snd (signup_route now hash_pw d q))))"
    by (rule signup_settings_invariant)
qed

theorem reader_settings_clamped_witness:
  "constraints_ok sample_db \<and> load_user sample_db (Some 1) = Some alice \<and>
   py_get (py_or (get_json_silent (font_request (JFloat (Finite 5)))) (JObj [])) ''fontScale''
     = Inr (JFloat (Finite 5)) \<and>
   py_float sample_float_of_str (JFloat (Finite 5)) = Inr (Finite 5) \<and>
   (\<exists>u'. load_user (committed (snd (put_reader_settings_route sample_float_of_str sample_db
             (Some 1) (font_request (JFloat (Finite 5)))))) (Some 1) = Some u' \<and>
         u_reader_font_scale u' = Finite 1.6) \<and>
   py_float sample_float_of_str (JStr ''0.1'') = Inr (Finite 0.1) \<and>
   (\<exists>u'. load_user (committed (snd (put_reader_settings_route sample_float_of_str sample_db
             (Some 1) (font_request (JStr ''0.1''))))) (Some 1) = Some u' \<and>
         u_reader_font_scale u' = Finite 0.75) \<and>
   settings_in_range sample_db \<and>
   settings_in_range (committed (snd (put_reader_settings_route sample_float_of_str sample_db
      (Some 1) (font_request (JFloat (Finite 5))))))"
proof -
  have g5: "py_get (py_or (get_json_silent (font_request (JFloat (Finite 5)))) (JObj [])) ''fontScale''
     = Inr (JFloat (Finite 5))"
    by (simp add: font_request_def get_json_silent_def py_or_def)
  have g1: "py_get (py_or (get_json_silent (font_request (JStr ''0.1''))) (JObj [])) ''fontScale''
     = Inr (JStr ''0.1'')"
    by (simp add: font_request_def get_json_silent_def py_or_def)
  have f5: "py_float sample_float_of_str (JFloat (Finite 5)) = Inr (Finite 5)" by simp
  have f1: "py_float sample_float_of_str (JStr ''0.1'') = Inr (Finite 0.1)"
    by (simp add: sample_float_of_str_def)
  have inv: "settings_in_range sample_db"
    by (simp add: settings_in_range_def sample_db_def alice_def bob_def new_user_def)
  have v5: "py_max (Finite 0.75) (py_min (Finite 1.6) (Finite 5)) = Finite 1.6"
    and v1: "py_max (Finite 0.75) (py_min (Finite 1.6) (Finite 0.1)) = Finite 0.75"
    by (simp_all add: py_max_def py_min_def)
  note t5 = reader_settings_clamped [of sample_db "Some 1" alice "font_request (JFloat (Finite 5))"
      "JFloat (Finite 5)" sample_float_of_str "Finite 5"]
  note t1 = reader_settings_clamped [of sample_db "Some 1" alice "font_request (JStr ''0.1'')"
      "JStr ''0.1''" sample_float_of_str "Finite 0.1"]
  from t5 [THEN conjunct1] sample_db_ok load_user_sample_alice g5 f5 v5
  have a: "\<exists>u'. load_user (committed (snd (put_reader_settings_route sample_float_of_str sample_db
             (Some 1) (font_request (JFloat (Finite 5)))))) (Some 1) = Some u' \<and>
         u_reader_font_scale u' = Finite 1.6" by auto
  from t1 [THEN conjunct1] sample_db_ok load_user_sample_alice g1 f1 v1
  have b: "\<exists>u'. load_user (committed (snd (put_reader_settings_route sample_float_of_str sample_db
             (Some 1) (font_request (JStr ''0.1''))))) (Some 1) = Some u' \<and>
         u_reader_font_scale u' = Finite 0.75" by auto
  from t5 [THEN conjunct2, THEN conjunct2, THEN conjunct2, THEN conjunct2, THEN conjunct1]
    inv have c: "settings_in_range (committed (snd (put_reader_settings_route
      sample_float_of_str sample_db (Some 1) (font_request (JFloat (Finite 5))))))" by blast
  from sample_db_ok load_user_sample_alice g5 f5 a f1 b inv c show ?thesis by blast
qed

text \<open>
  C10, as the code has it. The claim is that the handler returns success whatever the
  body holds. A body that is a non-empty JSON array has no \<^verbatim>\<open>get\<close>: the handler raises
  and the request ends with status 500.
\<close>

theorem put_reader_settings_nondict_counterexample:
  "load_user sample_db (Some 1) = Some alice \<and>
   put_reader_settings_route sample_float_of_str sample_db (Some 1) (Parsed (JArr [JInt 1])) =
     (Uncaught AttributeError, begin_session sample_db) \<and>
   status_of (fst (put_reader_settings_route sample_float_of_str sample_db (Some 1)
      (Parsed (JArr [JInt 1])))) = 500"
  using load_user_sample_alice
  by (simp add: put_reader_settings_route_def login_required_def
      put_reader_settings_def get_json_silent_def py_or_def)

text \<open>
  C10, amended. For an authenticated request whose body is a JSON object (or is missing,
  not JSON, or a falsy JSON value, which the handler replaces by the empty object), the
  handler returns the current settings with status 200. A theme outside paper, white
  and night leaves the stored theme as it was, a \<^verbatim>\<open>fontScale\<close> or \<^verbatim>\<open>lineHeight\<close> that
  is absent or does not convert to a float leaves that field as it was, and every valid
  field of the same request is applied (the two numbers clamped).
\<close>

theorem put_reader_settings_partial:
  assumes "constraints_ok d" and "load_user d cookie = Some u"
    and "py_or (get_json_silent p) (JObj []) = JObj kvs"
    and "py_get (JObj kvs) ''theme'' = Inr th"
    and "py_get (JObj kvs) ''fontScale'' = Inr fs"
    and "py_get (JObj kvs) ''lineHeight'' = Inr lh"
  shows "\<exists>u'. fst (put_reader_settings_route fos d cookie p) = get_reader_settings u' \<and>
      status_of (fst (put_reader_settings_route fos d cookie p)) = 200 \<and>
      load_user (committed (snd (put_reader_settings_route fos d cookie p))) cookie = Some u' \<and>
      u_reader_theme u' =
        (if th = JStr ''paper'' \<or> th = JStr ''white'' \<or> th = JStr ''night''
         then (case th of JStr t \<Rightarrow> t | _ \<Rightarrow> u_reader_theme u) else u_reader_theme u) \<and>
      u_reader_font_scale u' =
        (case py_float fos fs of Inl e \<Rightarrow> u_reader_font_scale u
         | Inr x \<Rightarrow> py_max (Finite 0.75) (py_min (Finite 1.6) x)) \<and>
      u_reader_line_height u' =
        (case py_float fos lh of Inl e \<Rightarrow> u_reader_line_height u
         | Inr y \<Rightarrow> py_max (Finite 1.2) (py_min (Finite 2.4) y)) \<and>
      u_id u' = u_id u \<and> u_name u' = u_name u \<and> u_email u' = u_email u \<and>
      u_password_hash u' = u_password_hash u \<and> u_is_admin u' = u_is_admin u \<and>
      u_created_at u' = u_created_at u"
proof -
  let ?u = "updated_user fos th fs lh u"
  have r: "put_reader_settings_route fos d cookie p =
     (get_reader_settings ?u, \<lparr>committed = store_user ?u d, working = store_user ?u d, trace = [Commit]\<rparr>)"
    using assms by (simp add: put_reader_settings_dict)
  have l: "load_user (store_user ?u d) cookie = Some ?u"
    using assms(2) by (simp add: load_user_store_user updated_user_def)
  have t: "u_reader_theme ?u =
        (if th = JStr ''paper'' \<or> th = JStr ''white'' \<or> th = JStr ''night''
         then (case th of JStr t \<Rightarrow> t | _ \<Rightarrow> u_reader_theme u) else u_reader_theme u)"
    by (auto simp: updated_user_def apply_theme_def split: json.splits)
  have f: "u_reader_font_scale ?u =
        (case py_float fos fs of Inl e \<Rightarrow> u_reader_font_scale u
         | Inr x \<Rightarrow> py_max (Finite 0.75) (py_min (Finite 1.6) x))"
    by (simp add: updated_user_def apply_font_scale_def split: sum.splits)
  have h: "u_reader_line_height ?u =
        (case py_float fos lh of Inl e \<Rightarrow> u_reader_line_height u
         | Inr y \<Rightarrow> py_max (Finite 1.2) (py_min (Finite 2.4) y))"
    by (simp add: updated_user_def apply_line_height_def split: sum.splits)
  have s: "status_of (get_reader_settings ?u) = 200" by (simp add: get_reader_settings_def)
  have k: "u_id ?u = u_id u \<and> u_name ?u = u_name u \<and> u_email ?u = u_email u \<and>
      u_password_hash ?u = u_password_hash u \<and> u_is_admin ?u = u_is_admin u \<and>
      u_created_at ?u = u_created_at u"
    by (simp add: updated_user_def)
  from r l t f h s k show ?thesis
    by (intro exI [of _ ?u]) simp
qed

theorem put_reader_settings_partial_witness:
  "constraints_ok sample_db \<and> load_user sample_db (Some 1) = Some alice \<and>
   (\<exists>u'. fst (put_reader_settings_route sample_float_of_str sample_db (Some 1) settings_request)
           = get_reader_settings u' \<and>
      load_user (committed (snd (put_reader_settings_route sample_float_of_str sample_db (Some 1)
           settings_request))) (Some 1) = Some u' \<and>
      u_reader_theme u' = ''paper'' \<and> u_reader_font_scale u' = Finite 1 \<and>
      u_reader_line_height u' = Finite 2)"
proof -
  have j: "py_or (get_json_silent settings_request) (JObj []) =
     JObj [(''theme'', JStr ''sepia''), (''fontScale'', JStr ''big''), (''lineHeight'', JInt 2)]"
    by (simp add: settings_request_def get_json_silent_def py_or_def)
  have g: "py_get (JObj [(''theme'', JStr ''sepia''), (''fontScale'', JStr ''big''),
       (''lineHeight'', JInt 2)]) ''theme'' = Inr (JStr ''sepia'')"
    "py_get (JObj [(''theme'', JStr ''sepia''), (''fontScale'', JStr ''big''),
       (''lineHeight'', JInt 2)]) ''fontScale'' = Inr (JStr ''big'')"
    "py_get (JObj [(''theme'', JStr ''sepia''), (''fontScale'', JStr ''big''),
       (''lineHeight'', JInt 2)]) ''lineHeight'' = Inr (JInt 2)"
    by simp_all
  have v: "py_float sample_float_of_str (JStr ''big'') = Inl ValueError"
    "py_float sample_float_of_str (JInt 2) = Inr (Finite 2)"
    "py_max (Finite 1.2) (py_min (Finite 2.4) (Finite 2)) = Finite 2"
    by (simp_all add: sample_float_of_str_def py_max_def py_min_def py_float_small_int
        del: py_float.simps(3))
  have a: "u_reader_theme alice = ''paper''" "u_reader_font_scale alice = Finite 1"
    by (simp_all add: alice_def new_user_def)
  from put_reader_settings_partial [OF sample_db_ok load_user_sample_alice j g, of sample_float_of_str]
  obtain u' where "fst (put_reader_settings_route sample_float_of_str sample_db (Some 1) settings_request)
           = get_reader_settings u'"
      "load_user (committed (snd (put_reader_settings_route sample_float_of_str sample_db (Some 1)
           settings_request))) (Some 1) = Some u'"
      "u_reader_theme u' = ''paper''" "u_reader_font_scale u' = Finite 1"
      "u_reader_line_height u' = Finite 2"
    using v a by auto
  with sample_db_ok load_user_sample_alice show ?thesis by blast
qed

subsection \<open>Progress upsert\<close>

lemma fold_max_ge: "x \<in> set xs \<Longrightarrow> x \<le> fold max xs (a::nat)"
proof (induction xs arbitrary: a)
  case Nil
  then show ?case by simp
next
  case (Cons y ys)
  have mono: "b \<le> fold max ys (b::nat)" for b
  proof (induction ys arbitrary: b)
    case Nil
    show ?case by simp
  next
    case (Cons z zs)
    have "b \<le> max z b" by simp
    also have "\<dots> \<le> fold max zs (max z b)" by (rule Cons.IH)
    finally show ?case by simp
  qed
  from Cons show ?case
  proof (cases "x = y")
    case True
    have "y \<le> max y a" by simp
    also have "\<dots> \<le> fold max ys (max y a)" by (rule mono)
    finally show ?thesis using True by simp
  next
    case False
    with Cons show ?thesis by simp
  qed
qed

lemma next_id_fresh: "next_id ids \<notin> set ids"
proof
  assume "next_id ids \<in> set ids"
  then have "next_id ids \<le> fold max ids 0" by (rule fold_max_ge)
  then show False by (simp add: next_id_def)
qed

lemma progress_constraints:
  "constraints_ok d \<Longrightarrow> distinct (map lp_id rows) \<Longrightarrow>
   distinct (map (\<lambda>r. (lp_user_id r, lp_chapter_id r)) rows) \<Longrightarrow>
   list_all (\<lambda>r. length (lp_chapter_id r) \<le> 64) rows \<Longrightarrow>
   constraints_ok (d\<lparr>listening_progress := rows\<rparr>)"
  by (simp add: constraints_ok_def)

lemma find_None_key:
  "find (\<lambda>r. lp_user_id r = i \<and> lp_chapter_id r = x) rows = None \<Longrightarrow>
   (i, x) \<notin> set (map (\<lambda>r. (lp_user_id r, lp_chapter_id r)) rows)"
  by (auto simp: find_None_iff)

lemma find_Some_key:
  "find (\<lambda>r. lp_user_id r = i \<and> lp_chapter_id r = x) rows = Some row \<Longrightarrow>
   row \<in> set rows \<and> lp_user_id row = i \<and> lp_chapter_id row = x"
  by (induction rows) (auto split: if_splits)

text \<open>A chapter id that holds NUL is refused by the database at the handler's query.\<close>

lemma set_progress_nul:
  "get_stripped j ''chapterId'' = Inr x \<Longrightarrow> x \<noteq> [] \<Longrightarrow> \<not> pg_text_ok x \<Longrightarrow>
   get_position fos j = Inr pos \<Longrightarrow>
   set_progress now fos (Parsed j) u s =
     (Uncaught DBAPIError, emit (Query ''listening_progress'') s)"
  by (simp add: set_progress_def get_json_force_def Let_def)

text \<open>One successful upsert.\<close>

lemma set_progress_step:
  assumes ok: "constraints_ok d" and cu: "load_user d cookie = Some u"
    and x: "get_stripped j ''chapterId'' = Inr x" "x \<noteq> []" "length x \<le> 64" "pg_text_ok x"
    and pos: "get_position fos j = Inr pos"
  shows "\<exists>s'. set_progress_route now fos d cookie (Parsed j) = (Reply 200 Ok, s') \<and>
      constraints_ok (committed s') \<and> users (committed s') = users d \<and>
      (\<exists>row \<in> set (listening_progress (committed s')).
          progress_key (u_id u) x row \<and> lp_position_seconds row = pos)"
proof (cases "find (\<lambda>r. lp_user_id r = u_id u \<and> lp_chapter_id r = x) (listening_progress d)")
  case None
  let ?new = "\<lparr>lp_id = next_id (map lp_id (listening_progress d)), lp_user_id = u_id u,
      lp_chapter_id = x, lp_position_seconds = pos, lp_updated_at = now\<rparr>"
  let ?rows = "listening_progress d @ [?new]"
  from ok have d: "distinct (map lp_id (listening_progress d))"
    "distinct (map (\<lambda>r. (lp_user_id r, lp_chapter_id r)) (listening_progress d))"
    "list_all (\<lambda>r. length (lp_chapter_id r) \<le> 64) (listening_progress d)"
    by (simp_all add: constraints_ok_def)
  have "constraints_ok (d\<lparr>listening_progress := ?rows\<rparr>)"
    using ok d x(3) next_id_fresh [of "map lp_id (listening_progress d)"] find_None_key [OF None]
    by (intro progress_constraints) simp_all
  then show ?thesis
    using cu x pos None
    by (simp add: set_progress_route_def login_required_def set_progress_def get_json_force_def
        begin_session_def emit_def commit_def progress_key_def Let_def)
next
  case (Some row)
  let ?f = "\<lambda>r. if lp_id r = lp_id row
      then r\<lparr>lp_position_seconds := pos, lp_updated_at := now\<rparr> else r"
  let ?rows = "map ?f (listening_progress d)"
  from ok have d: "distinct (map lp_id (listening_progress d))"
    "distinct (map (\<lambda>r. (lp_user_id r, lp_chapter_id r)) (listening_progress d))"
    "list_all (\<lambda>r. length (lp_chapter_id r) \<le> 64) (listening_progress d)"
    by (simp_all add: constraints_ok_def)
  have m: "map lp_id ?rows = map lp_id (listening_progress d)"
    "map (\<lambda>r. (lp_user_id r, lp_chapter_id r)) ?rows =
       map (\<lambda>r. (lp_user_id r, lp_chapter_id r)) (listening_progress d)"
    by (simp_all add: comp_def)
  have l: "list_all (\<lambda>r. length (lp_chapter_id r) \<le> 64) ?rows"
    using d(3) by (auto simp: list_all_iff)
  have c: "constraints_ok (d\<lparr>listening_progress := ?rows\<rparr>)"
    using ok d l unfolding m [symmetric] by (intro progress_constraints)
  from find_Some_key [OF Some] have r: "row \<in> set (listening_progress d)"
    "lp_user_id row = u_id u" "lp_chapter_id row = x" by simp_all
  let ?row' = "row\<lparr>lp_position_seconds := pos, lp_updated_at := now\<rparr>"
  have e: "?row' \<in> set ?rows" using r(1) by (auto intro!: image_eqI [of _ _ row])
  have k: "progress_key (u_id u) x ?row' \<and> lp_position_seconds ?row' = pos"
    using r by (simp add: progress_key_def)
  let ?s = "\<lparr>committed = d\<lparr>listening_progress := ?rows\<rparr>,
         working = d\<lparr>listening_progress := ?rows\<rparr>,
         trace = [Query ''listening_progress'', Commit]\<rparr>"
  have res: "set_progress_route now fos d cookie (Parsed j) = (Reply 200 Ok, ?s)"
    using cu x pos Some c
    by (simp add: set_progress_route_def login_required_def set_progress_def get_json_force_def
        begin_session_def emit_def commit_def Let_def)
  from c have c': "constraints_ok (committed ?s)" by simp
  have u': "users (committed ?s) = users d" by simp
  from e have e': "?row' \<in> set (listening_progress (committed ?s))" by simp
  from res c' u' e' k show ?thesis by blast
qed

lemma distinct_key_filter:
  assumes "distinct (map (\<lambda>r. (lp_user_id r, lp_chapter_id r)) rows)" "row \<in> set rows"
    "progress_key i x row"
  shows "filter (progress_key i x) rows = [row]"
  using assms
proof (induction rows)
  case Nil
  then show ?case by simp
next
  case (Cons a rows)
  show ?case
  proof (cases "a = row")
    case True
    have "filter (progress_key i x) rows = []"
      using Cons.prems True by (auto simp: filter_empty_conv progress_key_def image_iff)
    with True Cons.prems(3) show ?thesis by simp
  next
    case False
    then have "row \<in> set rows" using Cons.prems(2) by simp
    moreover have "\<not> progress_key i x a"
      using Cons.prems(1,3) calculation by (auto simp: progress_key_def image_iff)
    ultimately show ?thesis using Cons by simp
  qed
qed

lemma load_user_same_users: "users d' = users d \<Longrightarrow> load_user d' c = load_user d c"
  by (cases c) (simp_all add: load_user_def)

lemma strip_ch1: "strip ''ch1'' = ''ch1''" "strip '' ch1 '' = ''ch1''"
  by (simp_all add: strip_def py_isspace_def)

text \<open>
  C5. On a database that satisfies its constraints, two progress upserts of one user
  for one chapter (a non-empty chapter id of at most 64 characters without NUL, which
  is what the database takes as a \<^verbatim>\<open>String(64)\<close>, and positions that convert to floats)
  both succeed and leave exactly one row for that user and chapter, holding the
  position of the second call as \<^verbatim>\<open>float\<close> converted it; after each call no two rows
  share a user id and chapter id.
\<close>

theorem progress_upsert_one_row:
  assumes ok: "constraints_ok d" and cu: "load_user d cookie = Some u"
    and x1: "get_stripped j1 ''chapterId'' = Inr x" and x2: "get_stripped j2 ''chapterId'' = Inr x"
    and x: "x \<noteq> []" "length x \<le> 64" "pg_text_ok x"
    and p1: "get_position fos j1 = Inr pos1" and p2: "get_position fos j2 = Inr pos2"
    and c1: "set_progress_route now1 fos d cookie (Parsed j1) = (r1, s1)"
    and c2: "set_progress_route now2 fos (committed s1) cookie (Parsed j2) = (r2, s2)"
  shows "r1 = Reply 200 Ok \<and> r2 = Reply 200 Ok \<and>
     (\<exists>row. filter (progress_key (u_id u) x) (listening_progress (committed s2)) = [row] \<and>
            lp_position_seconds row = pos2) \<and>
     (\<exists>row. filter (progress_key (u_id u) x) (listening_progress (committed s1)) = [row] \<and>
            lp_position_seconds row = pos1) \<and>
     distinct (map (\<lambda>r. (lp_user_id r, lp_chapter_id r)) (listening_progress (committed s1))) \<and>
     distinct (map (\<lambda>r. (lp_user_id r, lp_chapter_id r)) (listening_progress (committed s2)))"
proof -
  from set_progress_step [OF ok cu x1 x p1, of now1]
  obtain t1 row1 where a1: "set_progress_route now1 fos d cookie (Parsed j1) = (Reply 200 Ok, t1)"
      "constraints_ok (committed t1)"
      "users (committed t1) = users d" "row1 \<in> set (listening_progress (committed t1))"
      "progress_key (u_id u) x row1" "lp_position_seconds row1 = pos1"
    by blast
  from a1(1) c1 have "r1 = Reply 200 Ok" "t1 = s1" by simp_all
  with a1 have s1: "r1 = Reply 200 Ok" "constraints_ok (committed s1)"
      "users (committed s1) = users d" "row1 \<in> set (listening_progress (committed s1))"
      "progress_key (u_id u) x row1" "lp_position_seconds row1 = pos1"
    by simp_all
  have cu': "load_user (committed s1) cookie = Some u"
    using load_user_same_users [OF s1(3), of cookie] cu by simp
  from set_progress_step [OF s1(2) cu' x2 x p2, of now2]
  obtain t2 row2 where a2:
      "set_progress_route now2 fos (committed s1) cookie (Parsed j2) = (Reply 200 Ok, t2)"
      "constraints_ok (committed t2)"
      "row2 \<in> set (listening_progress (committed t2))"
      "progress_key (u_id u) x row2" "lp_position_seconds row2 = pos2"
    by blast
  from a2(1) c2 have "r2 = Reply 200 Ok" "t2 = s2" by simp_all
  with a2 have s2: "r2 = Reply 200 Ok" "constraints_ok (committed s2)"
      "row2 \<in> set (listening_progress (committed s2))"
      "progress_key (u_id u) x row2" "lp_position_seconds row2 = pos2"
    by simp_all
  from s1(2) have d1: "distinct (map (\<lambda>r. (lp_user_id r, lp_chapter_id r))
      (listening_progress (committed s1)))"
    by (simp add: constraints_ok_def)
  from s2(2) have d2: "distinct (map (\<lambda>r. (lp_user_id r, lp_chapter_id r))
      (listening_progress (committed s2)))"
    by (simp add: constraints_ok_def)
  have f1: "filter (progress_key (u_id u) x) (listening_progress (committed s1)) = [row1]"
    using d1 s1(4,5) by (rule distinct_key_filter)
  have f2: "filter (progress_key (u_id u) x) (listening_progress (committed s2)) = [row2]"
    using d2 s2(3,4) by (rule distinct_key_filter)
  from s1(1,6) s2(1,5) f1 f2 d1 d2 show ?thesis by simp
qed

theorem progress_upsert_one_row_witness:
  "constraints_ok sample_db \<and> load_user sample_db (Some 1) = Some alice \<and>
   get_stripped (progress_request ''ch1'' (JInt 10)) ''chapterId'' = Inr ''ch1'' \<and>
   get_stripped (progress_request '' ch1 '' (JFloat (Finite 25.5))) ''chapterId'' = Inr ''ch1'' \<and>
   get_position sample_float_of_str (progress_request ''ch1'' (JInt 10)) = Inr (Finite 10) \<and>
   get_position sample_float_of_str (progress_request '' ch1 '' (JFloat (Finite 25.5)))
     = Inr (Finite 25.5) \<and>
   fst (set_progress_route 40 sample_float_of_str sample_db (Some 1)
          (Parsed (progress_request ''ch1'' (JInt 10)))) = Reply 200 Ok \<and>
   fst (set_progress_route 41 sample_float_of_str
          (committed (snd (set_progress_route 40 sample_float_of_str sample_db (Some 1)
             (Parsed (progress_request ''ch1'' (JInt 10))))))
          (Some 1) (Parsed (progress_request '' ch1 '' (JFloat (Finite 25.5))))) = Reply 200 Ok \<and>
   (\<exists>row. filter (progress_key (u_id alice) ''ch1'')
       (listening_progress (committed (snd (set_progress_route 41 sample_float_of_str
          (committed (snd (set_progress_route 40 sample_float_of_str sample_db (Some 1)
             (Parsed (progress_request ''ch1'' (JInt 10))))))
          (Some 1) (Parsed (progress_request '' ch1 '' (JFloat (Finite 25.5)))))))) = [row] \<and>
      lp_position_seconds row = Finite 25.5)"
proof -
  let ?j1 = "progress_request ''ch1'' (JInt 10)"
  let ?j2 = "progress_request '' ch1 '' (JFloat (Finite 25.5))"
  let ?c1 = "set_progress_route 40 sample_float_of_str sample_db (Some 1) (Parsed ?j1)"
  let ?c2 = "set_progress_route 41 sample_float_of_str (committed (snd ?c1)) (Some 1) (Parsed ?j2)"
  have x1: "get_stripped ?j1 ''chapterId'' = Inr ''ch1''"
    and x2: "get_stripped ?j2 ''chapterId'' = Inr ''ch1''"
    by (simp_all add: progress_request_def get_stripped_def or_empty_strip_def py_or_def strip_ch1)
  have p1: "get_position sample_float_of_str ?j1 = Inr (Finite 10)"
    and p2: "get_position sample_float_of_str ?j2 = Inr (Finite 25.5)"
    by (simp_all add: progress_request_def get_position_def py_or_def py_float_small_int
        del: py_float.simps(3))
  have x: "''ch1'' \<noteq> []" "length ''ch1'' \<le> 64" "pg_text_ok ''ch1''"
    by (simp_all add: pg_text_ok_def)
  have e1: "?c1 = (fst ?c1, snd ?c1)" and e2: "?c2 = (fst ?c2, snd ?c2)" by simp_all
  note t = progress_upsert_one_row [OF sample_db_ok load_user_sample_alice x1 x2 x p1 p2 e1 e2]
  have a: "fst ?c1 = Reply 200 Ok" by (rule t [THEN conjunct1])
  have b: "fst ?c2 = Reply 200 Ok" by (rule t [THEN conjunct2, THEN conjunct1])
  have c: "\<exists>row. filter (progress_key (u_id alice) ''ch1'')
       (listening_progress (committed (snd ?c2))) = [row] \<and> lp_position_seconds row = Finite 25.5"
    by (rule t [THEN conjunct2, THEN conjunct2, THEN conjunct1])
  show ?thesis
    by (intro conjI sample_db_ok load_user_sample_alice x1 x2 p1 p2 a b c)
qed


subsection \<open>Deleting bookmarks and notes\<close>

lemma same_key_same_row:
  "distinct (map f rows) \<Longrightarrow> a \<in> set rows \<Longrightarrow> b \<in> set rows \<Longrightarrow> f a = f b \<Longrightarrow> a = b"
  by (meson distinct_map inj_onD)

lemma delete_bookmark_foreign:
  assumes cu: "load_user d cookie = Some u" and dist: "distinct (map bm_id (bookmarks d))"
    and row: "row \<in> set (bookmarks d)" "bm_id row = b" "bm_user_id row \<noteq> u_id u"
  shows "delete_bookmark_route d cookie b =
     (Reply 404 (Error ''Not found''), \<lparr>committed = d, working = d, trace = [Query ''bookmarks'']\<rparr>)"
proof -
  have "find (\<lambda>r. bm_user_id r = u_id u \<and> bm_id r = b) (bookmarks d) = None"
    using same_key_same_row [OF dist _ row(1)] row(2,3) by (auto simp: find_None_iff)
  then show ?thesis
    using cu by (simp add: delete_bookmark_route_def login_required_def delete_bookmark_def
        begin_session_def emit_def Let_def)
qed

lemma delete_bookmark_others:
  assumes dist: "distinct (map bm_id (bookmarks d))"
  shows "filter (\<lambda>r. bm_user_id r \<noteq> u_id u)
           (bookmarks (committed (snd (delete_bookmark b u (begin_session d))))) =
         filter (\<lambda>r. bm_user_id r \<noteq> u_id u) (bookmarks d)"
proof (cases "find (\<lambda>r. bm_user_id r = u_id u \<and> bm_id r = b) (bookmarks d)")
  case None
  then show ?thesis
    by (simp add: delete_bookmark_def begin_session_def emit_def Let_def)
next
  case (Some row)
  then have row: "row \<in> set (bookmarks d)" "bm_user_id row = u_id u"
    by (auto simp: find_Some_iff)
  have "filter (\<lambda>r. bm_user_id r \<noteq> u_id u) (filter (\<lambda>r. bm_id r \<noteq> bm_id row) (bookmarks d)) =
        filter (\<lambda>r. bm_user_id r \<noteq> u_id u) (bookmarks d)"
    using same_key_same_row [OF dist _ row(1)] row(2)
    by (auto intro!: filter_cong)
  then show ?thesis
    using Some
    by (auto simp: delete_bookmark_def begin_session_def emit_def commit_def Let_def)
qed

lemma delete_note_foreign:
  assumes cu: "load_user d cookie = Some u" and dist: "distinct (map nt_id (notes_table d))"
    and row: "row \<in> set (notes_table d)" "nt_id row = b" "nt_user_id row \<noteq> u_id u"
  shows "delete_note_route d cookie b =
     (Reply 404 (Error ''Not found''), \<lparr>committed = d, working = d, trace = [Query ''notes'']\<rparr>)"
proof -
  have "find (\<lambda>r. nt_user_id r = u_id u \<and> nt_id r = b) (notes_table d) = None"
    using same_key_same_row [OF dist _ row(1)] row(2,3) by (auto simp: find_None_iff)
  then show ?thesis
    using cu by (simp add: delete_note_route_def login_required_def delete_note_def
        begin_session_def emit_def Let_def)
qed

lemma delete_note_others:
  assumes dist: "distinct (map nt_id (notes_table d))"
  shows "filter (\<lambda>r. nt_user_id r \<noteq> u_id u)
           (notes_table (committed (snd (delete_note b u (begin_session d))))) =
         filter (\<lambda>r. nt_user_id r \<noteq> u_id u) (notes_table d)"
proof (cases "find (\<lambda>r. nt_user_id r = u_id u \<and> nt_id r = b) (notes_table d)")
  case None
  then show ?thesis
    by (simp add: delete_note_def begin_session_def emit_def Let_def)
next
  case (Some row)
  then have row: "row \<in> set (notes_table d)" "nt_user_id row = u_id u"
    by (auto simp: find_Some_iff)
  have "filter (\<lambda>r. nt_user_id r \<noteq> u_id u) (filter (\<lambda>r. nt_id r \<noteq> nt_id row) (notes_table d)) =
        filter (\<lambda>r. nt_user_id r \<noteq> u_id u) (notes_table d)"
    using same_key_same_row [OF dist _ row(1)] row(2)
    by (auto intro!: filter_cong)
  then show ?thesis
    using Some
    by (auto simp: delete_note_def begin_session_def emit_def commit_def Let_def)
qed

text \<open>
  C8. A delete request of user \<open>u\<close> for the id of a bookmark or note that belongs to
  another user is answered with 404 "Not found" and changes nothing; and whatever id
  \<open>u\<close> asks to delete, the rows that \<open>u\<close> does not own are afterwards what they were.
\<close>

theorem delete_owner_scoped:
  "(load_user d cookie = Some u \<and> distinct (map bm_id (bookmarks d)) \<and>
    row \<in> set (bookmarks d) \<and> bm_id row = b \<and> bm_user_id row \<noteq> u_id u \<longrightarrow>
      delete_bookmark_route d cookie b =
        (Reply 404 (Error ''Not found''),
         \<lparr>committed = d, working = d, trace = [Query ''bookmarks'']\<rparr>)) \<and>
   (load_user d cookie = Some u \<and> distinct (map nt_id (notes_table d)) \<and>
    nrow \<in> set (notes_table d) \<and> nt_id nrow = n \<and> nt_user_id nrow \<noteq> u_id u \<longrightarrow>
      delete_note_route d cookie n =
        (Reply 404 (Error ''Not found''),
         \<lparr>committed = d, working = d, trace = [Query ''notes'']\<rparr>)) \<and>
   (load_user d cookie = Some u \<and> distinct (map bm_id (bookmarks d)) \<longrightarrow>
      filter (\<lambda>r. bm_user_id r \<noteq> u_id u)
        (bookmarks (committed (snd (delete_bookmark_route d cookie b)))) =
      filter (\<lambda>r. bm_user_id r \<noteq> u_id u) (bookmarks d)) \<and>
   (load_user d cookie = Some u \<and> distinct (map nt_id (notes_table d)) \<longrightarrow>
      filter (\<lambda>r. nt_user_id r \<noteq> u_id u)
        (notes_table (committed (snd (delete_note_route d cookie n)))) =
      filter (\<lambda>r. nt_user_id r \<noteq> u_id u) (notes_table d))"
proof (intro conjI impI)
  assume "load_user d cookie = Some u \<and> distinct (map bm_id (bookmarks d)) \<and>
    row \<in> set (bookmarks d) \<and> bm_id row = b \<and> bm_user_id row \<noteq> u_id u"
  then show "delete_bookmark_route d cookie b =
        (Reply 404 (Error ''Not found''),
         \<lparr>committed = d, working = d, trace = [Query ''bookmarks'']\<rparr>)"
    by (intro delete_bookmark_foreign [of d cookie u row b]) simp_all
next
  assume "load_user d cookie = Some u \<and> distinct (map nt_id (notes_table d)) \<and>
    nrow \<in> set (notes_table d) \<and> nt_id nrow = n \<and> nt_user_id nrow \<noteq> u_id u"
  then show "delete_note_route d cookie n =
        (Reply 404 (Error ''Not found''),
         \<lparr>committed = d, working = d, trace = [Query ''notes'']\<rparr>)"
    by (intro delete_note_foreign [of d cookie u nrow n]) simp_all
next
  assume a: "load_user d cookie = Some u \<and> distinct (map bm_id (bookmarks d))"
  then have "delete_bookmark_route d cookie b = delete_bookmark b u (begin_session d)"
    by (simp add: delete_bookmark_route_def login_required_def)
  with a show "filter (\<lambda>r. bm_user_id r \<noteq> u_id u)
        (bookmarks (committed (snd (delete_bookmark_route d cookie b)))) =
      filter (\<lambda>r. bm_user_id r \<noteq> u_id u) (bookmarks d)"
    by (simp add: delete_bookmark_others)
next
  assume a: "load_user d cookie = Some u \<and> distinct (map nt_id (notes_table d))"
  then have "delete_note_route d cookie n = delete_note n u (begin_session d)"
    by (simp add: delete_note_route_def login_required_def)
  with a show "filter (\<lambda>r. nt_user_id r \<noteq> u_id u)
        (notes_table (committed (snd (delete_note_route d cookie n)))) =
      filter (\<lambda>r. nt_user_id r \<noteq> u_id u) (notes_table d)"
    by (simp add: delete_note_others)
qed

theorem delete_owner_scoped_witness:
  "load_user sample_db (Some 1) = Some alice \<and> distinct (map bm_id (bookmarks sample_db)) \<and>
   bobs_bookmark \<in> set (bookmarks sample_db) \<and> bm_id bobs_bookmark = 7 \<and>
   bm_user_id bobs_bookmark \<noteq> u_id alice \<and>
   delete_bookmark_route sample_db (Some 1) 7 =
     (Reply 404 (Error ''Not found''),
      \<lparr>committed = sample_db, working = sample_db, trace = [Query ''bookmarks'']\<rparr>) \<and>
   distinct (map nt_id (notes_table sample_db)) \<and>
   bobs_note \<in> set (notes_table sample_db) \<and> nt_id bobs_note = 4 \<and>
   nt_user_id bobs_note \<noteq> u_id alice \<and>
   delete_note_route sample_db (Some 1) 4 =
     (Reply 404 (Error ''Not found''),
      \<lparr>committed = sample_db, working = sample_db, trace = [Query ''notes'']\<rparr>) \<and>
   filter (\<lambda>r. bm_user_id r \<noteq> u_id alice)
     (bookmarks (committed (snd (delete_bookmark_route sample_db (Some 1) 7)))) = [bobs_bookmark] \<and>
   filter (\<lambda>r. nt_user_id r \<noteq> u_id alice)
     (notes_table (committed (snd (delete_note_route sample_db (Some 1) 4)))) = [bobs_note]"
proof -
  have h: "distinct (map bm_id (bookmarks sample_db))" "bobs_bookmark \<in> set (bookmarks sample_db)"
    "bm_id bobs_bookmark = 7" "bm_user_id bobs_bookmark \<noteq> u_id alice"
    "distinct (map nt_id (notes_table sample_db))" "bobs_note \<in> set (notes_table sample_db)"
    "nt_id bobs_note = 4" "nt_user_id bobs_note \<noteq> u_id alice"
    by (simp_all add: sample_db_def bobs_bookmark_def bobs_note_def alice_def new_user_def)
  have f: "filter (\<lambda>r. bm_user_id r \<noteq> u_id alice) (bookmarks sample_db) = [bobs_bookmark]"
    "filter (\<lambda>r. nt_user_id r \<noteq> u_id alice) (notes_table sample_db) = [bobs_note]"
    by (simp_all add: sample_db_def bobs_bookmark_def bobs_note_def alice_def new_user_def)
  note t = delete_owner_scoped [of sample_db "Some 1" alice bobs_bookmark 7 bobs_note 4]
  from t load_user_sample_alice h f show ?thesis by simp
qed


subsection \<open>Creating progress, bookmarks and notes\<close>

lemma position_default:
  "py_get j ''positionSeconds'' = Inr v \<Longrightarrow> \<not> truthy v \<Longrightarrow> get_position fos j = Inr (Finite 0)"
  by (simp add: get_position_def py_or_def)

lemma position_absent:
  "map_of kvs ''positionSeconds'' = None \<Longrightarrow> get_position fos (JObj kvs) = Inr (Finite 0)"
  by (simp add: get_position_def py_or_def)

text \<open>
  C3, at an input where the handlers do not have the property. A \<^verbatim>\<open>positionSeconds\<close> that is
  absent or falsy is read as 0.0 (\<open>position_default\<close>, \<open>position_absent\<close>). A string that
  \<^verbatim>\<open>float\<close> cannot parse is not: the conversion raises ValueError outside any
  \<^verbatim>\<open>try\<close>, and the three create handlers end with status 500.
\<close>

theorem create_unparseable_position:
  "sample_float_of_str ''abc'' = None \<and>
   get_position sample_float_of_str bad_position = Inl ValueError \<and>
   set_progress 60 sample_float_of_str (Parsed bad_position) alice (begin_session sample_db) =
     (Uncaught ValueError, begin_session sample_db) \<and>
   add_bookmark 60 sample_float_of_str (Parsed bad_position) alice (begin_session sample_db) =
     (Uncaught ValueError, begin_session sample_db) \<and>
   add_note 60 sample_float_of_str (Parsed bad_position) alice (begin_session sample_db) =
     (Uncaught ValueError, begin_session sample_db) \<and>
   status_of (Uncaught ValueError) = 500"
proof -
  have f: "sample_float_of_str ''abc'' = None" by (simp add: sample_float_of_str_def)
  have c: "get_stripped bad_position ''chapterId'' = Inr ''ch1''"
    by (simp add: bad_position_def get_stripped_def or_empty_strip_def py_or_def strip_def
        py_isspace_def)
  have p: "get_position sample_float_of_str bad_position = Inl ValueError"
    by (simp add: bad_position_def get_position_def py_or_def f)
  show ?thesis
    by (simp add: f c p set_progress_def add_bookmark_def add_note_def get_json_force_def)
qed


subsection \<open>Audio source allowlist\<close>

lemma urlparse_lookalike:
  "urlparse bo ''https://evildropbox.com/a.mp3'' = Inr (''https'', ''evildropbox.com'')"
  by (simp add: urlparse_def split_scheme_def c0_control_or_space_def unsafe_url_byte_def
      ascii_alpha_def scheme_char_def lower_def py_lower_char_def netloc_delim_def Let_def)

lemma hostname_lookalike: "hostname ''evildropbox.com'' = Some ''evildropbox.com''"
  by (simp add: hostname_def lower_def py_lower_char_def Let_def)

lemma allowed_lookalike: "is_allowed_audio_source bo (JStr ''https://evildropbox.com/a.mp3'')"
  by (simp add: is_allowed_audio_source_def urlparse_lookalike hostname_lookalike lower_def
      py_lower_char_def endswith_def)

lemma find_lookalike:
  "find_chapter_audio_url evil_manifest ''ch1'' = Inr (JStr ''https://evildropbox.com/a.mp3'')"
  by (simp add: find_chapter_audio_url_def evil_manifest_def py_or_def)

lemma endswith_append: "endswith s (a @ b) \<Longrightarrow> endswith s b"
proof -
  assume h: "endswith s (a @ b)"
  then have len: "length a + length b \<le> length s"
    and d: "drop (length s - (length a + length b)) s = a @ b"
    by (simp_all add: endswith_def)
  have "drop (length s - length b) s = drop (length a) (drop (length s - (length a + length b)) s)"
    using len by (simp add: drop_drop)
  also have "\<dots> = b" by (simp add: d)
  finally show ?thesis using len by (simp add: endswith_def)
qed

lemma allowlist_accepted:
  "host_on_allowlist h \<Longrightarrow> endswith h ''dropbox.com'' \<or> endswith h ''dropboxusercontent.com''"
  using endswith_append [of h "''.''" "''dropbox.com''"]
    endswith_append [of h "''.''" "''dropboxusercontent.com''"]
  by (auto simp: host_on_allowlist_def endswith_def)

lemma scheme_refused:
  "urlparse bo url = Inr (scheme, netloc) \<Longrightarrow> scheme \<noteq> ''http'' \<Longrightarrow> scheme \<noteq> ''https'' \<Longrightarrow>
   \<not> is_allowed_audio_source bo (JStr url)"
  by (simp add: is_allowed_audio_source_def)

lemma stream_audio_refused:
  "read_manifest f = Inr m \<Longrightarrow> find_chapter_audio_url m c = Inr src \<Longrightarrow> truthy src \<Longrightarrow>
   \<not> is_allowed_audio_source bo src \<Longrightarrow>
   stream_audio_route bo uo f rh (Some u) c = (Reply 400 (Error ''Audio source not allowed''), [])"
  by (simp add: stream_audio_route_def stream_audio_def)

lemma stream_audio_attempts:
  "snd (stream_audio_route bo uo f rh cu c) = [] \<or>
   (\<exists>url. snd (stream_audio_route bo uo f rh cu c) = [(url, request_headers rh)] \<and>
      is_allowed_audio_source bo (JStr url))"
  by (auto simp: stream_audio_route_def stream_audio_def Let_def
      split: option.splits sum.splits json.splits upstream.splits)

text \<open>
  C1, at an input where the handler does not have the property. The handler refuses
  every source that \<^const>\<open>is_allowed_audio_source\<close> rejects before any upstream request
  (\<open>stream_audio_refused\<close>, \<open>stream_audio_attempts\<close>), and that test rejects every scheme
  other than http and https (\<open>scheme_refused\<close>). Its host test is a plain suffix test,
  so it accepts the allowlisted hosts (\<open>allowlist_accepted\<close>) and also a host such as
  \<^verbatim>\<open>evildropbox.com\<close>, which is neither of the two domains nor a subdomain of one: for
  a manifest that names it, the handler opens the upstream URL and does not answer 400.
\<close>

theorem stream_audio_lookalike_host:
  "find_chapter_audio_url evil_manifest ''ch1'' = Inr (JStr ''https://evildropbox.com/a.mp3'') \<and>
   urlparse bo ''https://evildropbox.com/a.mp3'' = Inr (''https'', ''evildropbox.com'') \<and>
   hostname ''evildropbox.com'' = Some ''evildropbox.com'' \<and>
   \<not> host_on_allowlist ''evildropbox.com'' \<and>
   snd (stream_audio_route bo uo (Doc evil_manifest) None (Some alice) ''ch1'') =
     [(''https://evildropbox.com/a.mp3'', request_headers None)] \<and>
   fst (stream_audio_route bo uo (Doc evil_manifest) None (Some alice) ''ch1'') \<noteq>
     Reply 400 (Error ''Audio source not allowed'')"
proof -
  have n: "\<not> host_on_allowlist ''evildropbox.com''"
    by (simp add: host_on_allowlist_def endswith_def)
  have s: "snd (stream_audio_route bo uo (Doc evil_manifest) None (Some alice) ''ch1'') =
     [(''https://evildropbox.com/a.mp3'', request_headers None)]"
    by (simp add: stream_audio_route_def stream_audio_def read_manifest_def find_lookalike
        allowed_lookalike Let_def split: upstream.splits)
  have r: "fst (stream_audio_route bo uo (Doc evil_manifest) None (Some alice) ''ch1'') \<noteq>
     Reply 400 (Error ''Audio source not allowed'')"
    by (simp add: stream_audio_route_def stream_audio_def read_manifest_def find_lookalike
        allowed_lookalike Let_def split: upstream.splits)
  from find_lookalike urlparse_lookalike hostname_lookalike n s r show ?thesis by blast
qed

end
